theory Spec2Isabelle
  imports Complex_Main "HOL-Library.Sublist"
begin

section \<open>Behavior.js: the controller of the grid's columns, properties and features\<close>

text \<open>
  A shallow embedding of \<^verbatim>\<open>src/behaviors/Behavior.js\<close>. Methods that mutate
  \<^verbatim>\<open>this\<close> take the behavior and return the updated one; a JavaScript
  \<^verbatim>\<open>TypeError\<close> (a property read or a call on \<^verbatim>\<open>undefined\<close>) is the
  left injection of a sum.

  Conventions of the model:
  \<^item> JavaScript numbers used as indexes are integers (\<open>int\<close>); \<^verbatim>\<open>NaN\<close>, infinities
    and fractional indexes are outside the model. Numbers stored as property values are
    rationals, so that \<^verbatim>\<open>Math.ceil\<close> is \<open>ceiling\<close>.
  \<^item> A \<^verbatim>\<open>Column\<close> object is an address (\<open>oid\<close>) into a store; two references are
    the same object exactly when the addresses are equal, which is what
    \<^verbatim>\<open>Array.prototype.indexOf\<close> compares.
  \<^item> A JavaScript array of columns is its dense element list together with the
    properties stored under negative integer keys. An assignment \<^verbatim>\<open>a[-1] = x\<close> creates
    such a property: it is not an element, it does not count in \<^verbatim>\<open>a.length\<close>, and
    \<^verbatim>\<open>indexOf\<close>, \<^verbatim>\<open>map\<close>, \<^verbatim>\<open>forEach\<close> and \<^verbatim>\<open>splice\<close> do not see it. The element
    lists hold column objects only (no holes, no \<^verbatim>\<open>undefined\<close> elements).
  \<^item> Calls into the grid and its renderer, which are not part of this file, are
    recorded in a call log in the order in which they are made.
\<close>

subsection \<open>Values\<close>

datatype error = TypeError

text \<open>
  Property values. An object is the list of its own enumerable properties in insertion
  order; \<open>JUndefined\<close> is \<^verbatim>\<open>undefined\<close>, which is also what reading a deleted array
  element yields.
\<close>

datatype jsval =
    JUndefined
  | JNull
  | JBool bool
  | JNum rat
  | JStr string
  | JArr "jsval list"
  | JObj "(string \<times> jsval) list"


text \<open>An argument as the column methods inspect it (\<^verbatim>\<open>typeof\<close>, \<^verbatim>\<open>Array.isArray\<close>).\<close>

datatype jsarg =
    AUndefined
  | ABool bool
  | ANum int
  | AList "int list"

fun truthy :: "jsarg \<Rightarrow> bool" where
  "truthy AUndefined = False"
| "truthy (ABool b) = b"
| "truthy (ANum n) = (n \<noteq> 0)"
| "truthy (AList xs) = True"

fun isNumber :: "jsarg \<Rightarrow> bool" where
  "isNumber (ANum n) = True"
| "isNumber a = False"

fun isArray :: "jsarg \<Rightarrow> bool" where
  "isArray (AList xs) = True"
| "isArray a = False"

subsection \<open>Columns, arrays of columns, the grid\<close>

type_synonym oid = nat

record column =
  col_index :: int
  col_header :: "string option"
  col_properties :: jsval

record 'a jsarray =
  elems :: "'a list"
  negs :: "int \<rightharpoonup> 'a"

definition emptyArray :: "'a jsarray" where
  "emptyArray = \<lparr>elems = [], negs = Map.empty\<rparr>"

text \<open>\<^verbatim>\<open>a[i]\<close>: \<open>None\<close> is \<^verbatim>\<open>undefined\<close>.\<close>

definition arrayGet :: "'a jsarray \<Rightarrow> int \<Rightarrow> 'a option" where
  "arrayGet a i =
     (if 0 \<le> i then (if nat i < length (elems a) then Some (elems a ! nat i) else None)
      else negs a i)"

text \<open>\<^verbatim>\<open>a[i] = x\<close> for a negative key \<open>i\<close> (the only keys the file assigns this way).\<close>

definition putNeg :: "'a jsarray \<Rightarrow> int \<Rightarrow> 'a \<Rightarrow> 'a jsarray" where
  "putNeg a i x = a\<lparr>negs := (negs a)(i \<mapsto> x)\<rparr>"

datatype gridCall =
    BehaviorChanged
  | BehaviorShapeChanged
  | BehaviorStateChanged
  | ResetRowHeaderColumnWidth
  | UpdateCursor
  | ClearState
  | Reindex

record hypergrid =
  properties :: "string \<rightharpoonup> jsval"
  calls :: "gridCall list"

text \<open>
  Row metadata of a data model. The row properties object is the value of the reserved
  key \<^verbatim>\<open>__ROW\<close>; an object made by \<^verbatim>\<open>Object.create(prototype)\<close> has no own property
  and reads the others through its prototype.
\<close>

datatype protoArg =
    PUndefined
  | PNull
  | PObject "string \<rightharpoonup> jsval"

record rowProps =
  own :: "string \<rightharpoonup> jsval"
  inherited :: "string \<rightharpoonup> jsval"

record rowMetadata =
  rowProperties :: "rowProps option"
  otherKeys :: "string \<rightharpoonup> jsval"

text \<open>
  A data model (a subgrid): \<open>rows y = None\<close> when there is no row \<open>y\<close>,
  \<open>Some None\<close> when the row has no metadata object yet.
\<close>

record dataModel =
  rows :: "int \<rightharpoonup> rowMetadata option"

text \<open>
  A feature: the head of the chain. Each handler receives the grid and the event and
  returns the grid as the chain leaves it, or throws.
\<close>

type_synonym handler = "hypergrid \<Rightarrow> jsval \<Rightarrow> error + hypergrid"

record feature =
  handleMouseMove :: handler
  handleClick :: handler
  handleContextMenu :: handler
  handleWheelMoved :: handler
  handleMouseUp :: handler
  handleMouseDrag :: handler
  handleKeyDown :: handler
  handleKeyUp :: handler
  handleDoubleClick :: handler
  handleMouseDown :: handler
  handleMouseExit :: handler
  featureSetCursor :: "hypergrid \<Rightarrow> error + hypergrid"

record schemaEntry =
  se_index :: int
  se_name :: string
  se_header :: "string option"

text \<open>
  The behavior. \<open>store\<close> holds the \<^verbatim>\<open>Column\<close> objects and \<open>nextOid\<close> is the next free
  address; \<open>dataModels\<close> holds the data models (subgrids) by address and \<open>dataModel\<close> is
  the address of \<^verbatim>\<open>this.dataModel\<close>. \<open>propClassCOLUMNS\<close> is the constant
  \<^verbatim>\<open>propClassEnum.COLUMNS\<close> of \<^verbatim>\<open>defaults.js\<close>, which is not among the sources: it is a
  parameter of the model.
\<close>

record behavior =
  store :: "oid \<Rightarrow> column"
  nextOid :: oid
  columns :: "oid jsarray"
  allColumns :: "oid jsarray"
  schema :: "int \<rightharpoonup> schemaEntry"
  grid :: hypergrid
  dataModels :: "nat \<Rightarrow> dataModel"
  dataModel :: nat
  featureChain :: "feature option"
  propClassCOLUMNS :: jsval

definition treeColumnIndex :: int where
  "treeColumnIndex = -1"

definition rowColumnIndex :: int where
  "rowColumnIndex = -2"

subsection \<open>Notifications\<close>

definition gridCalled :: "gridCall \<Rightarrow> behavior \<Rightarrow> behavior" where
  "gridCalled c b = b\<lparr>grid := (grid b)\<lparr>calls := calls (grid b) @ [c]\<rparr>\<rparr>"

definition changed :: "behavior \<Rightarrow> behavior" where
  "changed b = gridCalled BehaviorChanged b"

definition shapeChanged :: "behavior \<Rightarrow> behavior" where
  "shapeChanged b = gridCalled BehaviorShapeChanged b"

definition stateChanged :: "behavior \<Rightarrow> behavior" where
  "stateChanged b = gridCalled BehaviorStateChanged b"

subsection \<open>showColumns and hideColumns\<close>

text \<open>\<^verbatim>\<open>xs.indexOf(x)\<close>; \<open>None\<close> is \<^verbatim>\<open>-1\<close>.\<close>

fun indexOf :: "'a list \<Rightarrow> 'a \<Rightarrow> nat option" where
  "indexOf [] x = None"
| "indexOf (y # ys) x = (if y = x then Some 0 else map_option Suc (indexOf ys x))"

text \<open>\<^verbatim>\<open>xs.splice(i, 1)\<close> and \<^verbatim>\<open>xs.splice(r, 0, ...ys)\<close> for \<open>r \<ge> 0\<close>.\<close>

definition spliceOut :: "nat \<Rightarrow> 'a list \<Rightarrow> 'a list" where
  "spliceOut i xs = take i xs @ drop (Suc i) xs"

definition spliceIn :: "nat \<Rightarrow> 'a list \<Rightarrow> 'a list \<Rightarrow> 'a list" where
  "spliceIn r ys xs = take r xs @ ys @ drop r xs"

text \<open>
  The loop \<^verbatim>\<open>newColumns.forEach(...)\<close> that removes the already visible columns: the
  state of the loop is the active element list and \<^verbatim>\<open>referenceIndex\<close>.
\<close>

fun removeVisible :: "'a list \<Rightarrow> 'a list \<times> int \<Rightarrow> 'a list \<times> int" where
  "removeVisible [] (active, r) = (active, r)"
| "removeVisible (c # cs) (active, r) =
     (case indexOf active c of
        None \<Rightarrow> removeVisible cs (active, r)
      | Some i \<Rightarrow> removeVisible cs (spliceOut i active, if r > int i then r - 1 else r))"

text \<open>
  \<^verbatim>\<open>columnIndexes.map(lookup).filter(truthy)\<close>; a scalar is nested first. Anything else
  has no \<^verbatim>\<open>map\<close> method: the call throws.
\<close>

fun nestIndexes :: "jsarg \<Rightarrow> error + int list" where
  "nestIndexes (ANum n) = Inr [n]"
| "nestIndexes (AList xs) = Inr xs"
| "nestIndexes a = Inl TypeError"

definition lookupColumns :: "'a jsarray \<Rightarrow> int list \<Rightarrow> 'a list" where
  "lookupColumns sourceColumnList ixs = List.map_filter (arrayGet sourceColumnList) ixs"

definition setColumnIndexesProperty :: "behavior \<Rightarrow> behavior" where
  "setColumnIndexesProperty b =
     b\<lparr>grid := (grid b)\<lparr>properties := (properties (grid b))
        (''columnIndexes'' \<mapsto>
           JArr (map (\<lambda>c. JNum (of_int (col_index (store b c)))) (elems (columns b))))\<rparr>\<rparr>"

text \<open>
  The default insertion point: when \<^verbatim>\<open>referenceIndex\<close> is not a number it is taken for
  \<^verbatim>\<open>allowDuplicateColumns\<close>, and the insertion point is the length of the active list.
\<close>

fun defaultReference :: "jsarg \<Rightarrow> jsarg \<Rightarrow> nat \<Rightarrow> jsarg \<times> int" where
  "defaultReference (ANum r) allowDuplicateColumns len = (allowDuplicateColumns, r)"
| "defaultReference referenceIndex allowDuplicateColumns len = (referenceIndex, int len)"

text \<open>
  What happens to the active element list: the removal loop unless duplicates are
  allowed, then the insertion unless the insertion point is negative.
\<close>

definition placeColumns :: "bool \<Rightarrow> 'a list \<Rightarrow> int \<Rightarrow> 'a list \<Rightarrow> 'a list" where
  "placeColumns allowDuplicateColumns newColumns referenceIndex active =
     (let (act, r) =
            (if \<not> allowDuplicateColumns then removeVisible newColumns (active, referenceIndex)
             else (active, referenceIndex))
      in if r \<ge> 0 then spliceIn (nat r) newColumns act else act)"

text \<open>The body of \<^verbatim>\<open>showColumns\<close> once the arguments have been promoted.\<close>

definition showColumnsBody ::
  "behavior \<Rightarrow> jsarg \<Rightarrow> jsarg \<Rightarrow> jsarg \<Rightarrow> jsarg \<Rightarrow> error + behavior" where
  "showColumnsBody b isActiveColumnIndexes columnIndexes referenceIndex allowDuplicateColumns =
     (let activeColumns = columns b;
          sourceColumnList = (if truthy isActiveColumnIndexes then activeColumns else allColumns b)
      in case nestIndexes columnIndexes of
           Inl e \<Rightarrow> Inl e
         | Inr ixs \<Rightarrow>
            (let newColumns = lookupColumns sourceColumnList ixs;
                 (allow, r) =
                    defaultReference referenceIndex allowDuplicateColumns
                      (length (elems activeColumns));
                 act = placeColumns (truthy allow) newColumns r (elems activeColumns)
             in Inr (setColumnIndexesProperty (b\<lparr>columns := activeColumns\<lparr>elems := act\<rparr>\<rparr>))))"

definition showColumns ::
  "behavior \<Rightarrow> jsarg \<Rightarrow> jsarg \<Rightarrow> jsarg \<Rightarrow> jsarg \<Rightarrow> error + behavior" where
  "showColumns b isActiveColumnIndexes columnIndexes referenceIndex allowDuplicateColumns =
     (if isNumber isActiveColumnIndexes \<or> isArray isActiveColumnIndexes
      then showColumnsBody b (ABool False) isActiveColumnIndexes columnIndexes referenceIndex
      else showColumnsBody b isActiveColumnIndexes columnIndexes referenceIndex
             allowDuplicateColumns)"

text \<open>
  \<^verbatim>\<open>f.apply(this, args)\<close> for a function of four parameters: missing arguments are
  \<^verbatim>\<open>undefined\<close>, surplus ones are dropped.
\<close>

definition argAt :: "jsarg list \<Rightarrow> nat \<Rightarrow> jsarg" where
  "argAt args n = (if n < length args then args ! n else AUndefined)"

definition showColumnsApply :: "behavior \<Rightarrow> jsarg list \<Rightarrow> error + behavior" where
  "showColumnsApply b args = showColumns b (argAt args 0) (argAt args 1) (argAt args 2) (argAt args 3)"

text \<open>\<^verbatim>\<open>hideColumns\<close> copies its \<^verbatim>\<open>arguments\<close>, pushes \<^verbatim>\<open>-1\<close> and applies \<^verbatim>\<open>showColumns\<close>.\<close>

definition hideColumns :: "behavior \<Rightarrow> jsarg list \<Rightarrow> error + behavior" where
  "hideColumns b arguments = showColumnsApply b (arguments @ [ANum (-1)])"

text \<open>
  Two behaviors that differ at most in the elements of the active list and in the grid
  property \<^verbatim>\<open>columnIndexes\<close>.
\<close>

definition sameButActiveColumns :: "behavior \<Rightarrow> behavior \<Rightarrow> bool" where
  "sameButActiveColumns b b' =
     (b' = b\<lparr>columns := (columns b)\<lparr>elems := elems (columns b')\<rparr>,
            grid := (grid b)\<lparr>properties := (properties (grid b))
              (''columnIndexes'' := properties (grid b') ''columnIndexes'')\<rparr>\<rparr>)"

text \<open>
  A call of \<^verbatim>\<open>showColumns\<close> or \<^verbatim>\<open>hideColumns\<close> that does not set
  \<^verbatim>\<open>allowDuplicateColumns\<close>: the list flag, the indexes, and for \<^verbatim>\<open>showColumns\<close> the
  insertion point if one is given.
\<close>

datatype columnCall =
    ShowCall bool "int list" "int option"
  | HideCall bool "int list"

fun performCall :: "behavior \<Rightarrow> columnCall \<Rightarrow> error + behavior" where
  "performCall b (ShowCall u ixs None) = showColumns b (ABool u) (AList ixs) AUndefined AUndefined"
| "performCall b (ShowCall u ixs (Some r)) = showColumns b (ABool u) (AList ixs) (ANum r) AUndefined"
| "performCall b (HideCall u ixs) = hideColumns b [ABool u, AList ixs]"

fun performCalls :: "behavior \<Rightarrow> columnCall list \<Rightarrow> error + behavior" where
  "performCalls b [] = Inr b"
| "performCalls b (c # cs) =
     (case performCall b c of Inl e \<Rightarrow> Inl e | Inr b' \<Rightarrow> performCalls b' cs)"

text \<open>The columns a call's index list resolves to, in the state in which it is made.\<close>

fun resolved :: "behavior \<Rightarrow> columnCall \<Rightarrow> oid list" where
  "resolved b (ShowCall u ixs r) = lookupColumns (if u then columns b else allColumns b) ixs"
| "resolved b (HideCall u ixs) = lookupColumns (if u then columns b else allColumns b) ixs"

fun isShowCall :: "columnCall \<Rightarrow> bool" where
  "isShowCall (ShowCall u ixs r) = True"
| "isShowCall (HideCall u ixs) = False"

text \<open>
  Every \<^verbatim>\<open>showColumns\<close> call of the sequence resolves its index list to pairwise
  different columns.
\<close>

fun showsDistinct :: "behavior \<Rightarrow> columnCall list \<Rightarrow> bool" where
  "showsDistinct b [] = True"
| "showsDistinct b (c # cs) =
     ((if isShowCall c then distinct (resolved b c) else True) \<and>
      (case performCall b c of Inl e \<Rightarrow> True | Inr b' \<Rightarrow> showsDistinct b' cs))"

subsection \<open>The column registry\<close>

definition getColumn :: "behavior \<Rightarrow> int \<Rightarrow> oid option" where
  "getColumn b x = arrayGet (allColumns b) x"

definition getActiveColumn :: "behavior \<Rightarrow> int \<Rightarrow> oid option" where
  "getActiveColumn b x = arrayGet (columns b) x"

definition getActiveColumnCount :: "behavior \<Rightarrow> nat" where
  "getActiveColumnCount b = length (elems (columns b))"

text \<open>
  \<^verbatim>\<open>getActiveColumnIndex\<close>: the loop runs over \<^verbatim>\<open>0 .. columns.length - 1\<close> and
  returns the first position whose column has the index; \<open>None\<close> is \<^verbatim>\<open>undefined\<close>.
\<close>

datatype columnOrIndex =
    ColumnArg oid
  | IndexArg int

fun firstWithIndex :: "(oid \<Rightarrow> column) \<Rightarrow> int \<Rightarrow> oid list \<Rightarrow> nat option" where
  "firstWithIndex st index [] = None"
| "firstWithIndex st index (c # cs) =
     (if col_index (st c) = index then Some 0 else map_option Suc (firstWithIndex st index cs))"

fun getActiveColumnIndex :: "behavior \<Rightarrow> columnOrIndex \<Rightarrow> nat option" where
  "getActiveColumnIndex b (ColumnArg c) =
     firstWithIndex (store b) (col_index (store b c)) (elems (columns b))"
| "getActiveColumnIndex b (IndexArg index) =
     firstWithIndex (store b) index (elems (columns b))"

text \<open>
  Modelled from the spec: the \<^verbatim>\<open>Column\<close> constructor (\<^verbatim>\<open>Column.js\<close> is not among the
  sources). A column is constructed from its spec (index and header label) as a new
  object whose properties object has no override yet.
\<close>

definition newColumn :: "behavior \<Rightarrow> int \<Rightarrow> string option \<Rightarrow> oid \<times> behavior" where
  "newColumn b index header =
     (nextOid b,
      b\<lparr>store := (store b)(nextOid b :=
           \<lparr>col_index = index, col_header = header, col_properties = JObj []\<rparr>),
        nextOid := Suc (nextOid b)\<rparr>)"

text \<open>\<^verbatim>\<open>obj[key] = v\<close> on the own properties of an object.\<close>

fun assignKey :: "string \<Rightarrow> jsval \<Rightarrow> (string \<times> jsval) list \<Rightarrow> (string \<times> jsval) list" where
  "assignKey key v [] = [(key, v)]"
| "assignKey key v ((k, w) # kvs) =
     (if k = key then (k, v) # kvs else (k, w) # assignKey key v kvs)"

fun assignProperty :: "string \<Rightarrow> jsval \<Rightarrow> jsval \<Rightarrow> jsval" where
  "assignProperty key v (JObj kvs) = JObj (assignKey key v kvs)"
| "assignProperty key v x = x"

definition setPropClassLayers :: "oid \<Rightarrow> behavior \<Rightarrow> behavior" where
  "setPropClassLayers c b =
     b\<lparr>store := (store b)(c := (store b c)\<lparr>col_properties :=
        assignProperty ''propClassLayers'' (JArr [propClassCOLUMNS b])
          (col_properties (store b c))\<rparr>)\<rparr>"

definition defaultTreeSchema :: schemaEntry where
  "defaultTreeSchema =
     \<lparr>se_index = treeColumnIndex, se_name = ''Tree'', se_header = Some ''Tree''\<rparr>"

definition defaultRowSchema :: schemaEntry where
  "defaultRowSchema = \<lparr>se_index = rowColumnIndex, se_name = [], se_header = Some []\<rparr>"

text \<open>\<^verbatim>\<open>schema[i] = schema[i] || dflt\<close> and \<^verbatim>\<open>schema[i].header\<close>.\<close>

definition orDefault :: "(int \<rightharpoonup> schemaEntry) \<Rightarrow> int \<Rightarrow> schemaEntry \<Rightarrow> (int \<rightharpoonup> schemaEntry)" where
  "orDefault sch i dflt = (case sch i of Some e \<Rightarrow> sch | None \<Rightarrow> sch(i \<mapsto> dflt))"

definition headerAt :: "(int \<rightharpoonup> schemaEntry) \<Rightarrow> int \<Rightarrow> string option" where
  "headerAt sch i = (case sch i of Some e \<Rightarrow> se_header e | None \<Rightarrow> None)"

definition clearColumns :: "behavior \<Rightarrow> behavior" where
  "clearColumns b =
     (let tc = treeColumnIndex;
          rc = rowColumnIndex;
          sch = orDefault (orDefault (schema b) tc defaultTreeSchema) rc defaultRowSchema;
          b1 = b\<lparr>schema := sch, columns := emptyArray, allColumns := emptyArray\<rparr>;
          (t, b2) = newColumn b1 tc (headerAt sch tc);
          b3 = b2\<lparr>columns := putNeg (columns b2) tc t, allColumns := putNeg (allColumns b2) tc t\<rparr>;
          (r, b4) = newColumn b3 rc (headerAt sch rc);
          b5 = b4\<lparr>columns := putNeg (columns b4) rc r, allColumns := putNeg (allColumns b4) rc r\<rparr>;
          b6 = (case arrayGet (columns b5) rc of None \<Rightarrow> b5 | Some c \<Rightarrow> setPropClassLayers c b5);
          b7 = (case arrayGet (columns b6) tc of None \<Rightarrow> b6 | Some c \<Rightarrow> setPropClassLayers c b6)
      in gridCalled ResetRowHeaderColumnWidth b7)"



subsection \<open>The state snapshot\<close>

definition noExportProperties :: "string list" where
  "noExportProperties =
     [''columnHeader'',
      ''columnHeaderColumnSelection'',
      ''filterProperties'',
      ''rowHeader'',
      ''rowHeaderRowSelection'',
      ''rowNumbersProperties'',
      ''treeColumnProperties'',
      ''treeColumnPropertiesColumnSelection'']"

text \<open>The property key of an array index: its decimal numeral.\<close>

definition digitChar :: "nat \<Rightarrow> char" where
  "digitChar d = ''0123456789'' ! d"

fun decimal :: "nat \<Rightarrow> string" where
  "decimal n = (if n < 10 then [digitChar n] else decimal (n div 10) @ [digitChar (n mod 10)])"

declare decimal.simps [simp del]

text \<open>
  The test of \<^verbatim>\<open>clearObjectProperties\<close> on a key. \<^verbatim>\<open>exportProps\<close> is \<open>None\<close> when it is
  \<^verbatim>\<open>undefined\<close>, else \<open>Some\<close> of its truth value.
\<close>

definition deletes :: "bool option \<Rightarrow> string \<Rightarrow> bool" where
  "deletes exportProps key =
     (exportProps = None \<or>
      exportProps = Some False \<and> key \<in> set noExportProperties \<or>
      exportProps = Some True \<and> key \<notin> set noExportProperties)"

text \<open>
  \<^verbatim>\<open>clearObjectProperties(obj, exportProps)\<close>: \<^verbatim>\<open>for (key in obj)\<close> enumerates the own
  keys of an object, the indexes of an array and the indexes of a string, and nothing for
  the other values. Deleting an array element leaves \<^verbatim>\<open>undefined\<close> there; deleting a
  character of a string throws in strict mode.
\<close>

fun clearObjectProperties :: "jsval \<Rightarrow> bool option \<Rightarrow> error + jsval" where
  "clearObjectProperties (JObj kvs) exportProps =
     Inr (JObj (filter (\<lambda>(k, v). \<not> deletes exportProps k) kvs))"
| "clearObjectProperties (JArr xs) exportProps =
     Inr (JArr (map (\<lambda>(i, x). if deletes exportProps (decimal i) then JUndefined else x)
                  (enumerate 0 xs)))"
| "clearObjectProperties (JStr s) exportProps =
     (if list_ex (\<lambda>i. deletes exportProps (decimal i)) [0..<length s] then Inl TypeError
      else Inr (JStr s))"
| "clearObjectProperties v exportProps = Inr v"

text \<open>
  \<^verbatim>\<open>JSON.parse(JSON.stringify(v))\<close>: a property whose value is \<^verbatim>\<open>undefined\<close> is left
  out, an \<^verbatim>\<open>undefined\<close> array element becomes \<^verbatim>\<open>null\<close>.
\<close>

fun jsonCopy :: "jsval \<Rightarrow> jsval"
  and copyElements :: "jsval list \<Rightarrow> jsval list"
  and copyProperties :: "(string \<times> jsval) list \<Rightarrow> (string \<times> jsval) list" where
  "jsonCopy (JArr xs) = JArr (copyElements xs)"
| "jsonCopy (JObj kvs) = JObj (copyProperties kvs)"
| "jsonCopy JUndefined = JUndefined"
| "jsonCopy JNull = JNull"
| "jsonCopy (JBool b) = JBool b"
| "jsonCopy (JNum n) = JNum n"
| "jsonCopy (JStr s) = JStr s"
| "copyElements [] = []"
| "copyElements (x # xs) = (if x = JUndefined then JNull else jsonCopy x) # copyElements xs"
| "copyProperties [] = []"
| "copyProperties ((k, v) # kvs) =
     (if v = JUndefined then copyProperties kvs else (k, jsonCopy v) # copyProperties kvs)"

definition copyBag :: "(string \<rightharpoonup> jsval) \<Rightarrow> (string \<rightharpoonup> jsval)" where
  "copyBag m =
     (\<lambda>k. case m k of None \<Rightarrow> None | Some v \<Rightarrow> (if v = JUndefined then None else Some (jsonCopy v)))"

definition getState :: "behavior \<Rightarrow> error + (string \<rightharpoonup> jsval)" where
  "getState b =
     (let copy = copyBag (properties (grid b))
      in case copy ''columnProperties'' of
           None \<Rightarrow> Inr copy
         | Some cp \<Rightarrow>
            (case clearObjectProperties cp (Some False) of
               Inl e \<Rightarrow> Inl e
             | Inr cp' \<Rightarrow> Inr (copy(''columnProperties'' \<mapsto> cp'))))"








text \<open>
  An object without its own keys that are on the list \<^verbatim>\<open>noExportProperties\<close>; any other
  value as it is.
\<close>

fun withoutNoExportKeys :: "jsval \<Rightarrow> jsval" where
  "withoutNoExportKeys (JObj kvs) = JObj (filter (\<lambda>(k, v). k \<notin> set noExportProperties) kvs)"
| "withoutNoExportKeys v = v"


subsection \<open>Row properties\<close>

datatype metadataResult =
    MUndefined
  | MFalse
  | MObject rowMetadata

text \<open>
  Modelled from the spec: \<^verbatim>\<open>getRowMetadata(y, prototype)\<close> of the external data model,
  the per-row metadata store that hosts the row properties objects. Its results follow
  the pattern that \<^verbatim>\<open>Behavior.js\<close> documents for \<^verbatim>\<open>getRowProperties\<close>: \<^verbatim>\<open>undefined\<close>
  when there is no such row; for a row, the row's metadata object, an empty one being
  created and stored when there is none and a prototype is given, and \<^verbatim>\<open>false\<close> when
  there is none and no prototype is given.
\<close>

definition emptyMetadata :: rowMetadata where
  "emptyMetadata = \<lparr>rowProperties = None, otherKeys = Map.empty\<rparr>"

definition getRowMetadata :: "dataModel \<Rightarrow> int \<Rightarrow> protoArg \<Rightarrow> metadataResult \<times> dataModel" where
  "getRowMetadata dm y prototype =
     (case rows dm y of
        None \<Rightarrow> (MUndefined, dm)
      | Some (Some m) \<Rightarrow> (MObject m, dm)
      | Some None \<Rightarrow>
         (if prototype = PUndefined then (MFalse, dm)
          else (MObject emptyMetadata, dm\<lparr>rows := (rows dm)(y \<mapsto> Some emptyMetadata)\<rparr>)))"

text \<open>\<^verbatim>\<open>prototype && null\<close> and \<^verbatim>\<open>Object.create(prototype)\<close>.\<close>

fun andNull :: "protoArg \<Rightarrow> protoArg" where
  "andNull PUndefined = PUndefined"
| "andNull PNull = PNull"
| "andNull (PObject m) = PNull"

fun objectCreate :: "protoArg \<Rightarrow> rowProps" where
  "objectCreate (PObject m) = \<lparr>own = Map.empty, inherited = m\<rparr>"
| "objectCreate p = \<lparr>own = Map.empty, inherited = Map.empty\<rparr>"

datatype rowPropsResult =
    RUndefined
  | RFalse
  | RObject rowProps

definition subgridOf :: "behavior \<Rightarrow> nat option \<Rightarrow> nat" where
  "subgridOf b sub = (case sub of Some d \<Rightarrow> d | None \<Rightarrow> dataModel b)"

definition putDataModel :: "behavior \<Rightarrow> nat \<Rightarrow> dataModel \<Rightarrow> behavior" where
  "putDataModel b d dm = b\<lparr>dataModels := (dataModels b)(d := dm)\<rparr>"

text \<open>\<^verbatim>\<open>metadata.__ROW = p\<close> on the metadata object of row \<open>y\<close>.\<close>

definition putRowProps :: "dataModel \<Rightarrow> int \<Rightarrow> rowMetadata \<Rightarrow> rowProps \<Rightarrow> dataModel" where
  "putRowProps dm y m p = dm\<lparr>rows := (rows dm)(y \<mapsto> Some (m\<lparr>rowProperties := Some p\<rparr>))\<rparr>"

text \<open>The overload of \<^verbatim>\<open>getRowProperties\<close> whose first argument is a row index.\<close>

definition getRowProperties ::
  "behavior \<Rightarrow> int \<Rightarrow> protoArg \<Rightarrow> nat option \<Rightarrow> rowPropsResult \<times> behavior" where
  "getRowProperties b y prototype sub =
     (let d = subgridOf b sub;
          (metadata, dm) = getRowMetadata (dataModels b d) y (andNull prototype)
      in case metadata of
           MUndefined \<Rightarrow> (RUndefined, putDataModel b d dm)
         | MFalse \<Rightarrow> (RFalse, putDataModel b d dm)
         | MObject m \<Rightarrow>
            (case rowProperties m of
               Some p \<Rightarrow> (RObject p, putDataModel b d dm)
             | None \<Rightarrow>
                (if prototype \<noteq> PUndefined
                 then (RObject (objectCreate prototype),
                       putDataModel b d (putRowProps dm y m (objectCreate prototype)))
                 else (RFalse, putDataModel b d dm))))"

text \<open>\<^verbatim>\<open>rowProps.height\<close>: the own property, else the inherited one.\<close>

definition readProp :: "rowProps \<Rightarrow> string \<Rightarrow> jsval option" where
  "readProp p key = (case own p key of Some v \<Rightarrow> Some v | None \<Rightarrow> inherited p key)"

definition clampHeight :: "rat \<Rightarrow> rat" where
  "clampHeight height = max 5 (of_int \<lceil>height\<rceil>)"

text \<open>
  \<^verbatim>\<open>setRowHeight\<close>: \<^verbatim>\<open>rowProps.height\<close> on \<^verbatim>\<open>undefined\<close> throws. The assignment writes
  into the object that the row's metadata holds.
\<close>

definition setRowHeight :: "behavior \<Rightarrow> int \<Rightarrow> rat \<Rightarrow> nat option \<Rightarrow> error + behavior" where
  "setRowHeight b y height sub =
     (case getRowProperties b y PNull sub of
        (RObject rowProps, b1) \<Rightarrow>
          (let oldHeight = readProp rowProps ''height'';
               newHeight = JNum (clampHeight height);
               d = subgridOf b sub;
               dm = dataModels b1 d;
               b2 = (case rows dm y of
                       Some (Some m) \<Rightarrow>
                         putDataModel b1 d
                           (putRowProps dm y m
                              (rowProps\<lparr>own := (own rowProps)(''height'' \<mapsto> newHeight)\<rparr>))
                     | _ \<Rightarrow> b1)
           in Inr (if Some newHeight \<noteq> oldHeight then stateChanged b2 else b2))
      | (_, b1) \<Rightarrow> Inl TypeError)"

text \<open>The height that the row's properties object holds, if the row has one.\<close>

definition storedHeight :: "behavior \<Rightarrow> int \<Rightarrow> nat option \<Rightarrow> jsval option" where
  "storedHeight b y sub =
     (case rows (dataModels b (subgridOf b sub)) y of
        Some (Some m) \<Rightarrow>
          (case rowProperties m of Some p \<Rightarrow> readProp p ''height'' | None \<Rightarrow> None)
      | _ \<Rightarrow> None)"

subsection \<open>The feature chain\<close>

text \<open>\<^verbatim>\<open>grid.updateCursor()\<close> belongs to the grid: the model records the call.\<close>

definition updateCursor :: "hypergrid \<Rightarrow> hypergrid" where
  "updateCursor g = g\<lparr>calls := calls g @ [UpdateCursor]\<rparr>"

definition setCursor :: "behavior \<Rightarrow> hypergrid \<Rightarrow> error + hypergrid" where
  "setCursor b g =
     (case featureChain b of
        None \<Rightarrow> Inl TypeError
      | Some chain \<Rightarrow> featureSetCursor chain (updateCursor g))"

text \<open>
  The eleven entry points have one body: if there is a chain, forward the event to the
  chain's handler of that kind and then set the cursor.
\<close>

definition delegate ::
  "behavior \<Rightarrow> (feature \<Rightarrow> handler) \<Rightarrow> hypergrid \<Rightarrow> jsval \<Rightarrow> error + hypergrid" where
  "delegate b handle g event =
     (case featureChain b of
        None \<Rightarrow> Inr g
      | Some chain \<Rightarrow>
         (case handle chain g event of
            Inl e \<Rightarrow> Inl e
          | Inr g' \<Rightarrow> setCursor b g'))"

definition onMouseMove :: "behavior \<Rightarrow> handler" where
  "onMouseMove b = delegate b handleMouseMove"

definition onClick :: "behavior \<Rightarrow> handler" where
  "onClick b = delegate b handleClick"

definition onContextMenu :: "behavior \<Rightarrow> handler" where
  "onContextMenu b = delegate b handleContextMenu"

definition onWheelMoved :: "behavior \<Rightarrow> handler" where
  "onWheelMoved b = delegate b handleWheelMoved"

definition onMouseUp :: "behavior \<Rightarrow> handler" where
  "onMouseUp b = delegate b handleMouseUp"

definition onMouseDrag :: "behavior \<Rightarrow> handler" where
  "onMouseDrag b = delegate b handleMouseDrag"

definition onKeyDown :: "behavior \<Rightarrow> handler" where
  "onKeyDown b = delegate b handleKeyDown"

definition onKeyUp :: "behavior \<Rightarrow> handler" where
  "onKeyUp b = delegate b handleKeyUp"

definition onDoubleClick :: "behavior \<Rightarrow> handler" where
  "onDoubleClick b = delegate b handleDoubleClick"

definition behaviorHandleMouseDown :: "behavior \<Rightarrow> handler" where
  "behaviorHandleMouseDown b = delegate b handleMouseDown"

definition behaviorHandleMouseExit :: "behavior \<Rightarrow> handler" where
  "behaviorHandleMouseExit b = delegate b handleMouseExit"

subsection \<open>A small grid\<close>

text \<open>
  Three columns with the indexes 0, 1 and 2, of which the first two are active; one data
  model with a row 0 that has no metadata and a row 1 whose properties object holds the
  height 20; no feature.
\<close>

definition exampleBehavior :: behavior where
  "exampleBehavior =
     \<lparr>store = (\<lambda>n. \<lparr>col_index = int n, col_header = None, col_properties = JObj []\<rparr>),
      nextOid = 3,
      columns = \<lparr>elems = [0, 1], negs = Map.empty\<rparr>,
      allColumns = \<lparr>elems = [0, 1, 2], negs = Map.empty\<rparr>,
      schema = Map.empty,
      grid = \<lparr>properties = Map.empty, calls = []\<rparr>,
      dataModels = (\<lambda>d. \<lparr>rows =
        [0 \<mapsto> None,
         1 \<mapsto> Some \<lparr>rowProperties = Some \<lparr>own = [''height'' \<mapsto> JNum 20], inherited = Map.empty\<rparr>,
                     otherKeys = Map.empty\<rparr>]\<rparr>),
      dataModel = 0,
      featureChain = None,
      propClassCOLUMNS = JNum 1\<rparr>"

text \<open>
  The small grid after \<^verbatim>\<open>showColumns(false, [0, 0, 0])\<close>: column 0 stands three times
  in the active list.
\<close>

definition exampleDuplicateBehavior :: behavior where
  "exampleDuplicateBehavior =
     exampleBehavior\<lparr>columns := \<lparr>elems = [1, 0, 0, 0], negs = Map.empty\<rparr>\<rparr>"

text \<open>
  The small grid with a per-column properties object that has a key of the list, and the
  small grid with some grid-wide configuration.
\<close>

definition exampleSnapshotBehavior :: behavior where
  "exampleSnapshotBehavior =
     exampleBehavior\<lparr>grid :=
       \<lparr>properties =
          [''columnProperties'' \<mapsto>
             JArr [JObj [(''columnHeader'', JObj [(''color'', JStr ''red'')]),
                         (''width'', JNum 80)]]],
        calls = []\<rparr>\<rparr>"




text \<open>
  A feature for the small grid: its mouse-down handler notes the event in the grid's
  properties, its cursor setter sets a pointer cursor, the other handlers do nothing.
\<close>

definition exampleFeature :: feature where
  "exampleFeature =
     \<lparr>handleMouseMove = (\<lambda>g e. Inr g),
      handleClick = (\<lambda>g e. Inr g),
      handleContextMenu = (\<lambda>g e. Inr g),
      handleWheelMoved = (\<lambda>g e. Inr g),
      handleMouseUp = (\<lambda>g e. Inr g),
      handleMouseDrag = (\<lambda>g e. Inr g),
      handleKeyDown = (\<lambda>g e. Inr g),
      handleKeyUp = (\<lambda>g e. Inr g),
      handleDoubleClick = (\<lambda>g e. Inr g),
      handleMouseDown = (\<lambda>g e. Inr (g\<lparr>properties := (properties g)(''mouseDown'' \<mapsto> e)\<rparr>)),
      handleMouseExit = (\<lambda>g e. Inr g),
      featureSetCursor = (\<lambda>g. Inr (g\<lparr>properties := (properties g)(''cursor'' \<mapsto> JStr ''pointer'')\<rparr>))\<rparr>"

section \<open>Properties\<close>

subsection \<open>The removal loop and the insertion\<close>

lemma indexOf_None: "indexOf xs x = None \<longleftrightarrow> x \<notin> set xs"
  by (induction xs) auto

lemma indexOf_Some: "indexOf xs x = Some i \<Longrightarrow> i < length xs \<and> xs ! i = x \<and> x \<notin> set (take i xs)"
  by (induction xs arbitrary: i) (auto split: if_splits)

lemma indexOf_spliceOut: "indexOf xs x = Some i \<Longrightarrow> spliceOut i xs = remove1 x xs"
  by (induction xs arbitrary: i) (auto simp: spliceOut_def split: if_splits)

lemma indexOf_less: "indexOf xs x = Some i \<Longrightarrow> i < length xs"
  by (simp add: indexOf_Some)

lemma filter_remove1_distinct:
  "distinct B \<Longrightarrow>
     filter (\<lambda>x. x \<notin> set cs) (remove1 c B) = filter (\<lambda>x. x \<noteq> c \<and> x \<notin> set cs) B"
  by (induction B) (auto intro: filter_cong)

lemma filter_notin_Cons:
  "c \<notin> set B \<Longrightarrow> filter (\<lambda>x. x \<noteq> c \<and> x \<notin> set cs) B = filter (\<lambda>x. x \<notin> set cs) B"
  by (auto intro: filter_cong)

lemma removeVisible_split:
  "distinct (B @ C) \<Longrightarrow> k \<ge> 0 \<Longrightarrow> (C = [] \<or> k = 0) \<Longrightarrow>
   removeVisible cs (B @ C, int (length B) + k) =
     (filter (\<lambda>x. x \<notin> set cs) B @ filter (\<lambda>x. x \<notin> set cs) C,
      int (length (filter (\<lambda>x. x \<notin> set cs) B)) + k)"
proof (induction cs arbitrary: B C)
  case Nil
  then show ?case by simp
next
  case (Cons c cs)
  show ?case
  proof (cases "indexOf (B @ C) c")
    case None
    then have "c \<notin> set B" "c \<notin> set C" by (auto simp: indexOf_None)
    with None Cons show ?thesis by (simp add: filter_notin_Cons)
  next
    case (Some i)
    note idx = indexOf_Some [OF Some]
    have out: "spliceOut i (B @ C) = remove1 c (B @ C)"
      by (rule indexOf_spliceOut [OF Some])
    show ?thesis
    proof (cases "c \<in> set B")
      case True
      have "i < length B"
      proof (rule ccontr)
        assume "\<not> i < length B"
        then have "set B \<subseteq> set (take i (B @ C))" by simp
        with True idx show False by blast
      qed
      from True Cons.prems(1) have cC: "c \<notin> set C" by auto
      have d: "distinct (remove1 c B @ C)"
        using Cons.prems(1) by (auto dest: notin_set_remove1)
      have len: "int (length (remove1 c B)) = int (length B) - 1"
        using True by (simp add: length_remove1) (cases B; simp)
      have eq: "int (length B) + k - 1 = int (length (remove1 c B)) + k"
        using len by arith
      have "removeVisible (c # cs) (B @ C, int (length B) + k) =
            removeVisible cs (remove1 c B @ C, int (length B) + k - 1)"
        using Some out True \<open>i < length B\<close> Cons.prems(2) by (simp add: remove1_append)
      also have "\<dots> = removeVisible cs (remove1 c B @ C, int (length (remove1 c B)) + k)"
        by (simp only: eq)
      also have "\<dots> = (filter (\<lambda>x. x \<notin> set cs) (remove1 c B) @ filter (\<lambda>x. x \<notin> set cs) C,
                       int (length (filter (\<lambda>x. x \<notin> set cs) (remove1 c B))) + k)"
        by (rule Cons.IH [OF d Cons.prems(2) Cons.prems(3)])
      finally show ?thesis
        using Cons.prems(1) cC by (simp add: filter_remove1_distinct filter_notin_Cons)
    next
      case False
      have ge: "length B \<le> i"
      proof (rule ccontr)
        assume "\<not> length B \<le> i"
        then have "(B @ C) ! i = B ! i" "i < length B" by (simp_all add: nth_append)
        with idx False show False by (metis nth_mem)
      qed
      from idx ge have "C \<noteq> []" by auto
      with Cons.prems(3) have k0: "k = 0" by simp
      have d: "distinct (B @ remove1 c C)"
        using Cons.prems(1) by (auto dest: notin_set_remove1)
      have "removeVisible (c # cs) (B @ C, int (length B) + k) =
            removeVisible cs (B @ remove1 c C, int (length B) + k)"
        using Some out False ge k0 by (simp add: remove1_append)
      also have "\<dots> = (filter (\<lambda>x. x \<notin> set cs) B @ filter (\<lambda>x. x \<notin> set cs) (remove1 c C),
                       int (length (filter (\<lambda>x. x \<notin> set cs) B)) + k)"
        using k0 by (intro Cons.IH [OF d]) simp_all
      finally show ?thesis
        using Cons.prems(1) False by (simp add: filter_remove1_distinct filter_notin_Cons)
    qed
  qed
qed

lemma removeVisible_negative:
  "distinct A \<Longrightarrow> r < 0 \<Longrightarrow> removeVisible cs (A, r) = (filter (\<lambda>x. x \<notin> set cs) A, r)"
proof (induction cs arbitrary: A)
  case Nil
  then show ?case by simp
next
  case (Cons c cs)
  show ?case
  proof (cases "indexOf A c")
    case None
    then have "c \<notin> set A" by (simp add: indexOf_None)
    with None Cons show ?thesis by (simp add: filter_notin_Cons)
  next
    case (Some i)
    have "removeVisible (c # cs) (A, r) = removeVisible cs (remove1 c A, r)"
      using Some Cons.prems(2) by (simp add: indexOf_spliceOut)
    with Cons show ?thesis by (simp add: filter_remove1_distinct)
  qed
qed

lemma removeVisible_distinct:
  assumes "distinct A"
  shows "removeVisible cs (A, r) =
           (filter (\<lambda>x. x \<notin> set cs) A,
            r - int (length (filter (\<lambda>x. x \<in> set cs) (take (nat r) A))))"
proof (cases "r < 0")
  case True
  then show ?thesis using assms by (simp add: removeVisible_negative)
next
  case False
  define B where "B = take (nat r) A"
  define C where "C = drop (nat r) A"
  define k where "k = r - int (length B)"
  have A: "A = B @ C" by (simp add: B_def C_def)
  have k: "0 \<le> k" using False by (simp add: k_def B_def)
  have Ck: "C = [] \<or> k = 0" using False by (auto simp: k_def B_def C_def)
  have r: "r = int (length B) + k" by (simp add: k_def)
  have len: "length B = length (filter (\<lambda>x. x \<notin> set cs) B) + length (filter (\<lambda>x. x \<in> set cs) B)"
    using sum_length_filter_compl [of "\<lambda>x. x \<in> set cs" B] by simp
  have tk: "take (nat r) A = B" by (simp add: B_def)
  have "removeVisible cs (B @ C, int (length B) + k) =
          (filter (\<lambda>x. x \<notin> set cs) B @ filter (\<lambda>x. x \<notin> set cs) C,
           int (length (filter (\<lambda>x. x \<notin> set cs) B)) + k)"
    using assms k Ck unfolding A by (rule removeVisible_split)
  then have rv: "removeVisible cs (A, r) =
          (filter (\<lambda>x. x \<notin> set cs) A, int (length (filter (\<lambda>x. x \<notin> set cs) B)) + k)"
    unfolding r [symmetric] by (simp add: A)
  have "int (length (filter (\<lambda>x. x \<notin> set cs) B)) + k =
        r - int (length (filter (\<lambda>x. x \<in> set cs) B))"
    using len r by arith
  with rv show ?thesis by (simp only: tk)
qed

lemma spliceIn_removeVisible:
  assumes "distinct A" and "0 \<le> r"
  shows "(case removeVisible cs (A, r) of (act, r') \<Rightarrow> spliceIn (nat r') ys act) =
           filter (\<lambda>x. x \<notin> set cs) (take (nat r) A) @ ys @
           filter (\<lambda>x. x \<notin> set cs) (drop (nat r) A)"
proof -
  define B where "B = take (nat r) A"
  define C where "C = drop (nat r) A"
  define k where "k = r - int (length B)"
  have A: "A = B @ C" by (simp add: B_def C_def)
  have k: "0 \<le> k" using assms(2) by (simp add: k_def B_def)
  have Ck: "C = [] \<or> k = 0" using assms(2) by (auto simp: k_def B_def C_def)
  have r: "r = int (length B) + k" by (simp add: k_def)
  have rv: "removeVisible cs (B @ C, int (length B) + k) =
          (filter (\<lambda>x. x \<notin> set cs) B @ filter (\<lambda>x. x \<notin> set cs) C,
           int (length (filter (\<lambda>x. x \<notin> set cs) B)) + k)"
    using assms(1) k Ck unfolding A by (rule removeVisible_split)
  have "nat (int (length (filter (\<lambda>x. x \<notin> set cs) B)) + k) =
        length (filter (\<lambda>x. x \<notin> set cs) B) + nat k"
    using k by (simp add: nat_add_distrib)
  then have "spliceIn (nat (int (length (filter (\<lambda>x. x \<notin> set cs) B)) + k)) ys
          (filter (\<lambda>x. x \<notin> set cs) B @ filter (\<lambda>x. x \<notin> set cs) C) =
        filter (\<lambda>x. x \<notin> set cs) B @ ys @ filter (\<lambda>x. x \<notin> set cs) C"
    using Ck by (auto simp: spliceIn_def)
  with rv show ?thesis
    unfolding B_def [symmetric] C_def [symmetric] A [symmetric] r [symmetric] by simp
qed

lemma removeVisible_nonneg:
  assumes "distinct A" and "0 \<le> r"
  shows "0 \<le> snd (removeVisible cs (A, r))"
proof -
  have "length (filter (\<lambda>x. x \<in> set cs) (take (nat r) A)) \<le> nat r"
    by (rule order_trans [OF length_filter_le]) simp
  with assms show ?thesis by (simp add: removeVisible_distinct)
qed

lemma placeColumns_insert:
  assumes "distinct A" and "0 \<le> r"
  shows "placeColumns False cs r A =
           filter (\<lambda>x. x \<notin> set cs) (take (nat r) A) @ cs @
           filter (\<lambda>x. x \<notin> set cs) (drop (nat r) A)"
  using spliceIn_removeVisible [OF assms, where cs = cs and ys = cs]
    removeVisible_nonneg [OF assms, where cs = cs]
  by (simp add: placeColumns_def case_prod_beta)

lemma placeColumns_remove:
  assumes "distinct A" and "r < 0"
  shows "placeColumns False cs r A = filter (\<lambda>x. x \<notin> set cs) A"
  using assms by (simp add: placeColumns_def removeVisible_negative)

lemma columns_setColumnIndexesProperty [simp]:
  "columns (setColumnIndexesProperty b) = columns b"
  by (simp add: setColumnIndexesProperty_def)

lemma showColumns_number:
  "showColumns b (ABool u) (AList ixs) (ANum r) allow =
     Inr (setColumnIndexesProperty
           (b\<lparr>columns := (columns b)\<lparr>elems :=
                placeColumns (truthy allow)
                  (lookupColumns (if u then columns b else allColumns b) ixs) r
                  (elems (columns b))\<rparr>\<rparr>))"
  by (simp add: showColumns_def showColumnsBody_def Let_def)

lemma subseq_remove1: "subseq (remove1 x xs) xs"
  by (induction xs) auto

lemma removeVisible_fst: "fst (removeVisible cs (A, r)) = fold remove1 cs A"
  by (induction cs arbitrary: A r) (auto simp: indexOf_spliceOut indexOf_None remove1_idem split: option.splits)

lemma removeVisible_negative_any:
  "r < 0 \<Longrightarrow> removeVisible cs (A, r) = (fold remove1 cs A, r)"
  by (induction cs arbitrary: A) (auto simp: indexOf_spliceOut indexOf_None remove1_idem split: option.splits)

lemma removeVisible_split_any:
  "k \<ge> 0 \<Longrightarrow> (C = [] \<or> k = 0) \<Longrightarrow>
   \<exists>C'. removeVisible cs (B @ C, int (length B) + k) =
          (fold remove1 cs B @ C', int (length (fold remove1 cs B)) + k) \<and>
        subseq C' C"
proof (induction cs arbitrary: B C)
  case Nil
  then show ?case by auto
next
  case (Cons c cs)
  show ?case
  proof (cases "indexOf (B @ C) c")
    case None
    then have "c \<notin> set B" by (auto simp: indexOf_None)
    then have "remove1 c B = B" by (rule remove1_idem)
    with None Cons.IH [OF Cons.prems] show ?thesis by simp
  next
    case (Some i)
    note idx = indexOf_Some [OF Some]
    have out: "spliceOut i (B @ C) = remove1 c (B @ C)"
      by (rule indexOf_spliceOut [OF Some])
    show ?thesis
    proof (cases "c \<in> set B")
      case True
      have "i < length B"
      proof (rule ccontr)
        assume "\<not> i < length B"
        then have "set B \<subseteq> set (take i (B @ C))" by simp
        with True idx show False by blast
      qed
      have len: "int (length (remove1 c B)) = int (length B) - 1"
        using True by (simp add: length_remove1) (cases B; simp)
      have eq: "int (length B) + k - 1 = int (length (remove1 c B)) + k"
        using len by arith
      have "removeVisible (c # cs) (B @ C, int (length B) + k) =
            removeVisible cs (remove1 c B @ C, int (length B) + k - 1)"
        using Some out True \<open>i < length B\<close> Cons.prems(1) by (simp add: remove1_append)
      also have "\<dots> = removeVisible cs (remove1 c B @ C, int (length (remove1 c B)) + k)"
        by (simp only: eq)
      finally show ?thesis
        using Cons.IH [OF Cons.prems, of "remove1 c B"] by simp
    next
      case False
      have ge: "length B \<le> i"
      proof (rule ccontr)
        assume "\<not> length B \<le> i"
        then have "(B @ C) ! i = B ! i" "i < length B" by (simp_all add: nth_append)
        with idx False show False by (metis nth_mem)
      qed
      from idx ge have "C \<noteq> []" by auto
      with Cons.prems(2) have k0: "k = 0" by simp
      have B: "remove1 c B = B" using False by (rule remove1_idem)
      have step: "removeVisible (c # cs) (B @ C, int (length B) + k) =
            removeVisible cs (B @ remove1 c C, int (length B) + k)"
        using Some out False ge k0 by (simp add: remove1_append)
      from Cons.IH [OF Cons.prems(1), of "remove1 c C" B] k0 obtain C' where
          "removeVisible cs (B @ remove1 c C, int (length B) + k) =
             (fold remove1 cs B @ C', int (length (fold remove1 cs B)) + k)"
          and "subseq C' (remove1 c C)"
        by auto
      moreover have "subseq C' C"
        using \<open>subseq C' (remove1 c C)\<close> subseq_remove1 [of c C] by (rule subseq_order.order_trans)
      ultimately show ?thesis using step B by auto
    qed
  qed
qed

lemma fold_remove1_Nil [simp]: "fold remove1 cs [] = []"
  by (induction cs) simp_all

lemma removeVisible_any:
  "removeVisible cs (A, r) =
     (fold remove1 cs A,
      r - (int (length (take (nat r) A)) - int (length (fold remove1 cs (take (nat r) A)))))"
proof (cases "r < 0")
  case True
  then show ?thesis by (simp add: removeVisible_negative_any)
next
  case False
  define B where "B = take (nat r) A"
  define C where "C = drop (nat r) A"
  define k where "k = r - int (length B)"
  have A: "A = B @ C" by (simp add: B_def C_def)
  have k: "0 \<le> k" using False by (simp add: k_def B_def)
  have Ck: "C = [] \<or> k = 0" using False by (auto simp: k_def B_def C_def)
  have r: "r = int (length B) + k" by (simp add: k_def)
  from removeVisible_split_any [OF k Ck, of cs B] obtain C' where
      "removeVisible cs (B @ C, int (length B) + k) =
         (fold remove1 cs B @ C', int (length (fold remove1 cs B)) + k)"
    by blast
  then have rv: "removeVisible cs (A, r) =
         (fold remove1 cs B @ C', int (length (fold remove1 cs B)) + k)"
    unfolding r [symmetric] by (simp add: A)
  have "fold remove1 cs B @ C' = fold remove1 cs A"
    using removeVisible_fst [of cs A r] rv by simp
  moreover have "int (length (fold remove1 cs B)) + k =
      r - (int (length B) - int (length (fold remove1 cs B)))"
    using r by arith
  ultimately show ?thesis using rv by (simp add: B_def)
qed

lemma placeColumns_insert_any:
  assumes "0 \<le> r"
  shows "\<exists>tail. placeColumns False cs r A = fold remove1 cs (take (nat r) A) @ cs @ tail \<and>
           fold remove1 cs A = fold remove1 cs (take (nat r) A) @ tail \<and>
           subseq tail (drop (nat r) A)"
proof -
  define B where "B = take (nat r) A"
  define C where "C = drop (nat r) A"
  define k where "k = r - int (length B)"
  have A: "A = B @ C" by (simp add: B_def C_def)
  have k: "0 \<le> k" using assms by (simp add: k_def B_def)
  have Ck: "C = [] \<or> k = 0" using assms by (auto simp: k_def B_def C_def)
  have r: "r = int (length B) + k" by (simp add: k_def)
  from removeVisible_split_any [OF k Ck, of cs B] obtain C' where
      "removeVisible cs (B @ C, int (length B) + k) =
         (fold remove1 cs B @ C', int (length (fold remove1 cs B)) + k)"
      and sub: "subseq C' C"
    by blast
  then have rv: "removeVisible cs (A, r) =
         (fold remove1 cs B @ C', int (length (fold remove1 cs B)) + k)"
    unfolding r [symmetric] by (simp add: A)
  have whole: "fold remove1 cs A = fold remove1 cs B @ C'"
    using removeVisible_fst [of cs A r] rv by simp
  have C'k: "C' = [] \<or> k = 0" using Ck sub by auto
  have "nat (int (length (fold remove1 cs B)) + k) = length (fold remove1 cs B) + nat k"
    using k by (simp add: nat_add_distrib)
  then have "spliceIn (nat (int (length (fold remove1 cs B)) + k)) cs (fold remove1 cs B @ C') =
        fold remove1 cs B @ cs @ C'"
    using C'k by (auto simp: spliceIn_def)
  then have "placeColumns False cs r A = fold remove1 cs B @ cs @ C'"
    using rv k by (simp add: placeColumns_def)
  with whole sub show ?thesis
    unfolding B_def C_def by blast
qed

lemma placeColumns_remove_any:
  "r < 0 \<Longrightarrow> placeColumns False cs r A = fold remove1 cs A"
  by (simp add: placeColumns_def removeVisible_negative_any)

lemma fold_remove1_distinct:
  "distinct A \<Longrightarrow> fold remove1 cs A = filter (\<lambda>x. x \<notin> set cs) A"
  using removeVisible_fst [of cs A 0] removeVisible_distinct [of A cs 0] by simp

text \<open>
  Claim C2. In \<^verbatim>\<open>showColumns\<close>, an insertion point that is not a number defaults to
  the length of the active list (and the value given in its place is taken for the
  duplicates flag). When duplicates are not allowed, each resolved column in turn has
  its occurrence in the active list removed (the first one, if it stands there more than
  once), and the insertion point is decremented once for each removed occurrence that
  stood before it: by the number of elements that the part before the insertion point
  loses. So the insertion point is stable: the columns before it after the removal are
  exactly the survivors of those that stood before it, the resolved columns are inserted
  next, and the survivors of those at or after it follow in their order. A negative
  insertion point removes only. On an active list without duplicates the survivors are
  the columns that are not among the resolved ones.
\<close>

theorem showColumns_insertion_point:
  fixes b :: behavior and u :: bool and ixs :: "int list"
  defines "A \<equiv> elems (columns b)"
    and "new \<equiv> lookupColumns (if u then columns b else allColumns b) ixs"
  shows "(\<not> isNumber referenceIndex \<longrightarrow>
            showColumns b (ABool u) (AList ixs) referenceIndex allow =
            showColumns b (ABool u) (AList ixs) (ANum (int (length A))) referenceIndex)
       \<and> removeVisible new (A, r) =
            (fold remove1 new A,
             r - (int (length (take (nat r) A)) -
                  int (length (fold remove1 new (take (nat r) A)))))
       \<and> (\<not> truthy allow \<longrightarrow> 0 \<le> r \<longrightarrow>
            (\<exists>b' tail. showColumns b (ABool u) (AList ixs) (ANum r) allow = Inr b' \<and>
                  elems (columns b') = fold remove1 new (take (nat r) A) @ new @ tail \<and>
                  fold remove1 new A = fold remove1 new (take (nat r) A) @ tail \<and>
                  subseq tail (drop (nat r) A)))
       \<and> (\<not> truthy allow \<longrightarrow> r < 0 \<longrightarrow>
            (\<exists>b'. showColumns b (ABool u) (AList ixs) (ANum r) allow = Inr b' \<and>
                  elems (columns b') = fold remove1 new A))
       \<and> (distinct A \<longrightarrow>
            removeVisible new (A, r) =
              (filter (\<lambda>c. c \<notin> set new) A,
               r - int (length (filter (\<lambda>c. c \<in> set new) (take (nat r) A)))) \<and>
            (\<not> truthy allow \<longrightarrow> 0 \<le> r \<longrightarrow>
               (\<exists>b'. showColumns b (ABool u) (AList ixs) (ANum r) allow = Inr b' \<and>
                     elems (columns b') =
                       filter (\<lambda>c. c \<notin> set new) (take (nat r) A) @ new @
                       filter (\<lambda>c. c \<notin> set new) (drop (nat r) A))) \<and>
            (\<not> truthy allow \<longrightarrow> r < 0 \<longrightarrow>
               (\<exists>b'. showColumns b (ABool u) (AList ixs) (ANum r) allow = Inr b' \<and>
                     elems (columns b') = filter (\<lambda>c. c \<notin> set new) A)))"
proof -
  have sc: "showColumns b (ABool u) (AList ixs) (ANum r) allow =
      Inr (setColumnIndexesProperty
             (b\<lparr>columns := (columns b)\<lparr>elems := placeColumns (truthy allow) new r A\<rparr>\<rparr>))"
    unfolding A_def new_def by (rule showColumns_number)
  have 1: "showColumns b (ABool u) (AList ixs) referenceIndex allow =
           showColumns b (ABool u) (AList ixs) (ANum (int (length A))) referenceIndex"
    if "\<not> isNumber referenceIndex"
    using that by (cases referenceIndex) (simp_all add: showColumns_def showColumnsBody_def A_def)
  have 2: "removeVisible new (A, r) =
            (fold remove1 new A,
             r - (int (length (take (nat r) A)) -
                  int (length (fold remove1 new (take (nat r) A)))))"
    by (rule removeVisible_any)
  have 3: "\<exists>b' tail. showColumns b (ABool u) (AList ixs) (ANum r) allow = Inr b' \<and>
                  elems (columns b') = fold remove1 new (take (nat r) A) @ new @ tail \<and>
                  fold remove1 new A = fold remove1 new (take (nat r) A) @ tail \<and>
                  subseq tail (drop (nat r) A)"
    if "\<not> truthy allow" and "0 \<le> r"
    using that placeColumns_insert_any [OF that(2), of new A] by (simp add: sc)
  have 4: "\<exists>b'. showColumns b (ABool u) (AList ixs) (ANum r) allow = Inr b' \<and>
                elems (columns b') = fold remove1 new A"
    if "\<not> truthy allow" and "r < 0"
    using that by (simp add: sc placeColumns_remove_any)
  have 5: "removeVisible new (A, r) =
              (filter (\<lambda>c. c \<notin> set new) A,
               r - int (length (filter (\<lambda>c. c \<in> set new) (take (nat r) A))))"
    if "distinct A"
    using that by (rule removeVisible_distinct)
  have 6: "\<exists>b'. showColumns b (ABool u) (AList ixs) (ANum r) allow = Inr b' \<and>
                elems (columns b') =
                  filter (\<lambda>c. c \<notin> set new) (take (nat r) A) @ new @
                  filter (\<lambda>c. c \<notin> set new) (drop (nat r) A)"
    if "distinct A" and "\<not> truthy allow" and "0 \<le> r"
    using that placeColumns_insert [OF that(1) that(3), where cs = new] by (simp add: sc)
  have 7: "\<exists>b'. showColumns b (ABool u) (AList ixs) (ANum r) allow = Inr b' \<and>
                elems (columns b') = filter (\<lambda>c. c \<notin> set new) A"
    if "distinct A" and "\<not> truthy allow" and "r < 0"
    using that placeColumns_remove [OF that(1) that(3), where cs = new] by (simp add: sc)
  from 1 2 3 4 5 6 7 show ?thesis by (intro conjI impI) assumption+
qed

text \<open>The instance of C2 on the small grid.\<close>

lemma example_lookups:
  "lookupColumns (allColumns exampleBehavior) [2, 0] = [2, 0]"
  "lookupColumns (allColumns exampleBehavior) [0, 0] = [0, 0]"
  "lookupColumns (allColumns exampleBehavior) [0] = [0]"
  "elems (columns exampleBehavior) = [0, 1]"
  by (simp_all add: exampleBehavior_def lookupColumns_def arrayGet_def List.map_filter_simps)

lemma example_duplicate_lookups:
  "lookupColumns (allColumns exampleDuplicateBehavior) [0] = [0]"
  "elems (columns exampleDuplicateBehavior) = [1, 0, 0, 0]"
  by (simp_all add: exampleDuplicateBehavior_def exampleBehavior_def lookupColumns_def
      arrayGet_def List.map_filter_simps)

theorem showColumns_insertion_point_witness:
  "showColumns exampleBehavior (ABool False) (AList [2, 0]) AUndefined AUndefined =
     showColumns exampleBehavior (ABool False) (AList [2, 0]) (ANum 2) AUndefined
   \<and> removeVisible [2, 0] ([0, 1], 1) = ([1 :: oid], 0)
   \<and> (\<exists>b'. showColumns exampleBehavior (ABool False) (AList [2, 0]) (ANum 1) AUndefined = Inr b' \<and>
            elems (columns b') = [2, 0, 1])
   \<and> (\<exists>b'. showColumns exampleBehavior (ABool False) (AList [2, 0]) (ANum (- 1)) AUndefined = Inr b' \<and>
            elems (columns b') = [1])
   \<and> removeVisible [0] ([1, 0, 0, 0], 3) = ([1, 0, 0 :: oid], 2)
   \<and> (\<exists>b'. showColumns exampleDuplicateBehavior (ABool False) (AList [0]) (ANum 3) AUndefined = Inr b' \<and>
            elems (columns b') = [1, 0, 0, 0])
   \<and> (\<exists>b'. showColumns exampleDuplicateBehavior (ABool False) (AList [0]) (ANum (- 1)) AUndefined = Inr b' \<and>
            elems (columns b') = [1, 0, 0])"
proof -
  note a = showColumns_insertion_point [where b = exampleBehavior and u = False
      and ixs = "[2, 0]" and referenceIndex = AUndefined and allow = AUndefined and r = 1]
  note b = showColumns_insertion_point [where b = exampleBehavior and u = False
      and ixs = "[2, 0]" and referenceIndex = AUndefined and allow = AUndefined and r = "- 1"]
  note c = showColumns_insertion_point [where b = exampleDuplicateBehavior and u = False
      and ixs = "[0]" and referenceIndex = AUndefined and allow = AUndefined and r = 3]
  note d = showColumns_insertion_point [where b = exampleDuplicateBehavior and u = False
      and ixs = "[0]" and referenceIndex = AUndefined and allow = AUndefined and r = "- 1"]
  have 1: "showColumns exampleBehavior (ABool False) (AList [2, 0]) AUndefined AUndefined =
     showColumns exampleBehavior (ABool False) (AList [2, 0]) (ANum 2) AUndefined
   \<and> removeVisible [2, 0] ([0, 1], 1) = ([1 :: oid], 0)
   \<and> (\<exists>b'. showColumns exampleBehavior (ABool False) (AList [2, 0]) (ANum 1) AUndefined = Inr b' \<and>
            elems (columns b') = [2, 0, 1])"
    using a by (simp add: example_lookups)
  have 2: "\<exists>b'. showColumns exampleBehavior (ABool False) (AList [2, 0]) (ANum (- 1)) AUndefined = Inr b' \<and>
            elems (columns b') = [1]"
    using b by (simp add: example_lookups)
  have 3: "removeVisible [0] ([1, 0, 0, 0], 3) = ([1, 0, 0 :: oid], 2)
   \<and> (\<exists>b'. showColumns exampleDuplicateBehavior (ABool False) (AList [0]) (ANum 3) AUndefined = Inr b' \<and>
            elems (columns b') = [1, 0, 0, 0])"
    using c by (auto simp: example_duplicate_lookups)
  have 4: "\<exists>b'. showColumns exampleDuplicateBehavior (ABool False) (AList [0]) (ANum (- 1)) AUndefined = Inr b' \<and>
            elems (columns b') = [1, 0, 0]"
    using d by (simp add: example_duplicate_lookups)
  from 1 2 3 4 show ?thesis by blast
qed

subsection \<open>Sequences of calls, hide followed by show, and the frame\<close>

lemma setColumnIndexesProperty_others [simp]:
  "allColumns (setColumnIndexesProperty b) = allColumns b"
  "store (setColumnIndexesProperty b) = store b"
  "dataModels (setColumnIndexesProperty b) = dataModels b"
  "calls (grid (setColumnIndexesProperty b)) = calls (grid b)"
  by (simp_all add: setColumnIndexesProperty_def)

lemma placeColumns_distinct:
  assumes "distinct A" and "0 \<le> r \<longrightarrow> distinct cs"
  shows "distinct (placeColumns False cs r A)"
proof (cases "0 \<le> r")
  case True
  have "distinct (filter (\<lambda>x. x \<notin> set cs) (take (nat r) A) @
                  filter (\<lambda>x. x \<notin> set cs) (drop (nat r) A))"
    using assms(1) by (metis append_take_drop_id distinct_filter filter_append)
  with True assms show ?thesis
    by (auto simp: placeColumns_insert)
next
  case False
  with assms(1) show ?thesis by (simp add: placeColumns_remove)
qed

lemma showColumns_default:
  "showColumns b (ABool u) (AList ixs) AUndefined AUndefined =
     Inr (setColumnIndexesProperty
           (b\<lparr>columns := (columns b)\<lparr>elems :=
                placeColumns False
                  (lookupColumns (if u then columns b else allColumns b) ixs)
                  (int (length (elems (columns b))))
                  (elems (columns b))\<rparr>\<rparr>))"
  by (simp add: showColumns_def showColumnsBody_def Let_def)

lemma hideColumns_two:
  "hideColumns b [u, idxs] = showColumns b u idxs (ANum (- 1)) AUndefined"
  by (simp add: hideColumns_def showColumnsApply_def argAt_def)

lemma performCall_distinct:
  assumes "distinct (elems (columns b))"
    and "isShowCall c \<longrightarrow> distinct (resolved b c)"
  shows "\<exists>b'. performCall b c = Inr b' \<and> distinct (elems (columns b'))"
proof (cases c)
  case (ShowCall u ixs ref)
  with assms show ?thesis
    by (cases ref) (simp_all add: showColumns_default showColumns_number placeColumns_distinct)
next
  case (HideCall u ixs)
  with assms show ?thesis
    by (simp add: hideColumns_two showColumns_number placeColumns_distinct)
qed

text \<open>
  Claim C1, as amended. Take any sequence of \<^verbatim>\<open>showColumns\<close> and \<^verbatim>\<open>hideColumns\<close>
  calls that never set \<^verbatim>\<open>allowDuplicateColumns\<close> and in which the index list of every
  \<^verbatim>\<open>showColumns\<close> call resolves to pairwise different columns. Started on an active
  list without duplicates, every call of the sequence returns and the active list has no
  duplicate afterwards.
\<close>

theorem active_columns_stay_distinct:
  "distinct (elems (columns b)) \<Longrightarrow> showsDistinct b cs \<Longrightarrow>
   \<exists>b'. performCalls b cs = Inr b' \<and> distinct (elems (columns b'))"
proof (induction cs arbitrary: b)
  case Nil
  then show ?case by simp
next
  case (Cons c cs)
  from Cons.prems obtain b1 where 1: "performCall b c = Inr b1" and d: "distinct (elems (columns b1))"
    using performCall_distinct [of b c] by auto
  from Cons.prems(2) 1 have "showsDistinct b1 cs" by simp
  from Cons.IH [OF d this] 1 show ?case by simp
qed

text \<open>
  A sequence that satisfies the hypotheses: a hide, an insertion of two columns at the
  front, and a move within the active list.
\<close>

theorem active_columns_stay_distinct_witness:
  "\<exists>b'. performCalls exampleBehavior
           [HideCall False [0], ShowCall False [2, 0] (Some 0), ShowCall True [1] None] = Inr b' \<and>
        distinct (elems (columns b'))"
proof -
  have "showsDistinct exampleBehavior
          [HideCall False [0], ShowCall False [2, 0] (Some 0), ShowCall True [1] None]"
    by (simp add: hideColumns_two showColumns_number showColumns_default exampleBehavior_def
        lookupColumns_def arrayGet_def List.map_filter_simps placeColumns_def spliceOut_def
        spliceIn_def)
  moreover have "distinct (elems (columns exampleBehavior))"
    by (simp add: exampleBehavior_def)
  ultimately show ?thesis
    by (rule active_columns_stay_distinct [rotated])
qed

text \<open>
  Claim C1, as stated, fails: the removal loop looks at the active list only, and the
  resolved columns are spliced in as they are. The index list \<^verbatim>\<open>[0, 0]\<close> puts column 0
  twice into the active list of the small grid.
\<close>

theorem showColumns_repeated_index:
  "distinct (elems (columns exampleBehavior)) \<and>
   (\<exists>b'. showColumns exampleBehavior (ABool False) (AList [0, 0]) AUndefined AUndefined = Inr b' \<and>
         elems (columns b') = [1, 0, 0] \<and> \<not> distinct (elems (columns b')))"
  by (simp add: showColumns_default exampleBehavior_def
        lookupColumns_def arrayGet_def List.map_filter_simps placeColumns_def spliceOut_def
        spliceIn_def)

lemma filter_neq_remove1: "distinct A \<Longrightarrow> filter (\<lambda>x. x \<noteq> c) A = remove1 c A"
  by (induction A) (auto simp: remove1_idem)

lemma lookupColumns_scalar:
  "arrayGet a i = Some c \<Longrightarrow> lookupColumns a [i] = [c]"
  by (simp add: lookupColumns_def List.map_filter_simps)

lemma showColumns_scalar:
  "showColumns b (ABool u) (ANum i) referenceIndex allow =
   showColumns b (ABool u) (AList [i]) referenceIndex allow"
  by (simp add: showColumns_def showColumnsBody_def)

lemma count_list_remove1: "count_list (remove1 c A) c = count_list A c - 1"
  by (induction A) auto

text \<open>
  Claim C6, as amended. Let the column with index \<open>i\<close> stand exactly once in the active
  list, at a position \<open>p\<close> that is not the last. Then \<^verbatim>\<open>hideColumns(false, i)\<close>
  followed by \<^verbatim>\<open>showColumns(false, i)\<close> leaves the other columns in their order with
  the column appended: it is the last element and no longer stands at \<open>p\<close>. And
  \<^verbatim>\<open>hideColumns(u, idxs)\<close> is \<^verbatim>\<open>showColumns(u, idxs, -1)\<close>.
\<close>

theorem hide_then_show_appends:
  fixes b :: behavior and p :: nat
  defines "A \<equiv> elems (columns b)"
  assumes "count_list A c = 1" and "getColumn b i = Some c" and "p < length A - 1" and "A ! p = c"
  shows "(\<exists>b1 b2. hideColumns b [ABool False, ANum i] = Inr b1 \<and>
            showColumns b1 (ABool False) (ANum i) AUndefined AUndefined = Inr b2 \<and>
            elems (columns b2) = remove1 c A @ [c] \<and>
            last (elems (columns b2)) = c \<and>
            elems (columns b2) ! p \<noteq> c)
       \<and> hideColumns b [u, idxs] = showColumns b u idxs (ANum (- 1)) AUndefined"
proof -
  have lk: "lookupColumns (allColumns b) [i] = [c]"
    using assms(3) by (simp add: getColumn_def lookupColumns_scalar)
  define b1 where "b1 = setColumnIndexesProperty
      (b\<lparr>columns := (columns b)\<lparr>elems := placeColumns False [c] (- 1) A\<rparr>\<rparr>)"
  define b2 where "b2 = setColumnIndexesProperty
      (b1\<lparr>columns := (columns b1)\<lparr>elems :=
          placeColumns False [c] (int (length (elems (columns b1)))) (elems (columns b1))\<rparr>\<rparr>)"
  have h: "hideColumns b [ABool False, ANum i] = Inr b1"
    by (simp add: hideColumns_two showColumns_scalar showColumns_number lk b1_def A_def)
  have A1: "elems (columns b1) = remove1 c A"
    by (simp add: b1_def placeColumns_remove_any)
  have "lookupColumns (allColumns b1) [i] = [c]"
    using lk by (simp add: b1_def)
  then have s: "showColumns b1 (ABool False) (ANum i) AUndefined AUndefined = Inr b2"
    by (simp add: showColumns_scalar showColumns_default b2_def)
  have "count_list (remove1 c A) c = 0"
    using assms(2) by (simp add: count_list_remove1)
  then have notin: "c \<notin> set (remove1 c A)"
    using count_list_0_iff [of "remove1 c A" c] by blast
  then have idem: "remove1 c (remove1 c A) = remove1 c A" by (rule remove1_idem)
  from placeColumns_insert_any [of "int (length (remove1 c A))" "[c]" "remove1 c A"]
  have "placeColumns False [c] (int (length (remove1 c A))) (remove1 c A) = remove1 c A @ [c]"
    by (auto simp: idem)
  then have A2: "elems (columns b2) = remove1 c A @ [c]"
    by (simp add: b2_def A1)
  have "c \<in> set A" using assms(4,5) by (metis diff_le_self less_le_trans nth_mem)
  then have "length (remove1 c A) = length A - 1" by (simp add: length_remove1)
  with assms(4) have "(remove1 c A @ [c]) ! p \<in> set (remove1 c A)"
    by (simp add: nth_append)
  with notin have "(remove1 c A @ [c]) ! p \<noteq> c" by auto
  with h s A2 show ?thesis
    by (auto simp: hideColumns_two)
qed

theorem hide_then_show_appends_witness:
  "(\<exists>b1 b2. hideColumns exampleBehavior [ABool False, ANum 0] = Inr b1 \<and>
        showColumns b1 (ABool False) (ANum 0) AUndefined AUndefined = Inr b2 \<and>
        elems (columns b2) = [1, 0] \<and>
        last (elems (columns b2)) = 0 \<and>
        elems (columns b2) ! 0 \<noteq> 0)"
proof -
  have "count_list (elems (columns exampleBehavior)) 0 = 1"
    and "getColumn exampleBehavior 0 = Some 0"
    and "(0 :: nat) < length (elems (columns exampleBehavior)) - 1"
    and "elems (columns exampleBehavior) ! 0 = 0"
    by (simp_all add: exampleBehavior_def getColumn_def arrayGet_def)
  from hide_then_show_appends [OF this, THEN conjunct1] show ?thesis
    by (simp add: exampleBehavior_def)
qed

text \<open>
  Claim C6, as stated, fails on an active list that holds the column more than once.
  After \<^verbatim>\<open>showColumns(false, [0, 0, 0])\<close> on the small grid column 0 stands at the
  positions 1, 2 and 3; \<^verbatim>\<open>hideColumns(false, 0)\<close> and \<^verbatim>\<open>showColumns(false, 0)\<close> each
  remove one occurrence, and column 0 still stands at position 1.
\<close>

theorem hide_then_show_repeated_column:
  "\<exists>b0 b1 b2.
     showColumns exampleBehavior (ABool False) (AList [0, 0, 0]) AUndefined AUndefined = Inr b0 \<and>
     elems (columns b0) = [1, 0, 0, 0] \<and>
     getColumn b0 0 = Some 0 \<and>
     elems (columns b0) ! 1 = 0 \<and>
     (1 :: nat) < length (elems (columns b0)) - 1 \<and>
     hideColumns b0 [ABool False, ANum 0] = Inr b1 \<and>
     showColumns b1 (ABool False) (ANum 0) AUndefined AUndefined = Inr b2 \<and>
     elems (columns b2) = [1, 0, 0] \<and>
     elems (columns b2) ! 1 = 0"
  by (simp add: showColumns_default showColumns_scalar showColumns_number hideColumns_two
        exampleBehavior_def getColumn_def
        lookupColumns_def arrayGet_def List.map_filter_simps placeColumns_def spliceOut_def
        spliceIn_def)

lemma showColumnsBody_frame:
  "showColumnsBody b a1 a2 a3 a4 = Inr b' \<Longrightarrow>
   b' = b\<lparr>columns := (columns b)\<lparr>elems := elems (columns b')\<rparr>,
          grid := (grid b)\<lparr>properties := (properties (grid b))
            (''columnIndexes'' \<mapsto>
               JArr (map (\<lambda>c. JNum (of_int (col_index (store b c)))) (elems (columns b'))))\<rparr>\<rparr>"
  by (auto simp: showColumnsBody_def Let_def setColumnIndexesProperty_def
      split: sum.splits prod.splits)

lemma showColumns_frame_eq:
  "showColumns b a1 a2 a3 a4 = Inr b' \<Longrightarrow>
   b' = b\<lparr>columns := (columns b)\<lparr>elems := elems (columns b')\<rparr>,
          grid := (grid b)\<lparr>properties := (properties (grid b))
            (''columnIndexes'' \<mapsto>
               JArr (map (\<lambda>c. JNum (of_int (col_index (store b c)))) (elems (columns b'))))\<rparr>\<rparr>"
  by (auto simp: showColumns_def dest: showColumnsBody_frame split: if_splits)

lemma showColumns_frame:
  assumes "showColumns b a1 a2 a3 a4 = Inr b'"
  shows "sameButActiveColumns b b' \<and>
         calls (grid b') = calls (grid b) \<and>
         store b' = store b \<and>
         allColumns b' = allColumns b \<and>
         dataModels b' = dataModels b \<and>
         properties (grid b') ''columnIndexes'' =
           Some (JArr (map (\<lambda>c. JNum (of_int (col_index (store b' c)))) (elems (columns b'))))"
proof -
  note eq = showColumns_frame_eq [OF assms]
  have st: "store b' = store b" by (subst eq) simp
  have pv: "properties (grid b') ''columnIndexes'' =
           Some (JArr (map (\<lambda>c. JNum (of_int (col_index (store b c)))) (elems (columns b'))))"
    by (subst eq) simp
  have "sameButActiveColumns b b'"
    unfolding sameButActiveColumns_def pv by (rule eq)
  moreover have "calls (grid b') = calls (grid b)" by (subst eq) simp
  moreover have "allColumns b' = allColumns b" by (subst eq) simp
  moreover have "dataModels b' = dataModels b" by (subst eq) simp
  ultimately show ?thesis using st pv by simp
qed

text \<open>
  Claim C10. A call of \<^verbatim>\<open>showColumns\<close> or \<^verbatim>\<open>hideColumns\<close> that returns makes no call
  into the grid (so none of the three notifications), and it writes nothing but the
  elements of the active list and the grid property \<^verbatim>\<open>columnIndexes\<close>, which becomes
  the list of the indexes of the active columns: the columns' store, the list of all
  columns and the data models with their row metadata are as before.
\<close>

theorem showColumns_writes_only_active_columns:
  "(showColumns b a1 a2 a3 a4 = Inr b' \<longrightarrow>
      sameButActiveColumns b b' \<and>
      calls (grid b') = calls (grid b) \<and>
      store b' = store b \<and>
      allColumns b' = allColumns b \<and>
      dataModels b' = dataModels b \<and>
      properties (grid b') ''columnIndexes'' =
        Some (JArr (map (\<lambda>c. JNum (of_int (col_index (store b' c)))) (elems (columns b')))))
   \<and> (hideColumns b args = Inr b'' \<longrightarrow>
      sameButActiveColumns b b'' \<and>
      calls (grid b'') = calls (grid b) \<and>
      store b'' = store b \<and>
      allColumns b'' = allColumns b \<and>
      dataModels b'' = dataModels b \<and>
      properties (grid b'') ''columnIndexes'' =
        Some (JArr (map (\<lambda>c. JNum (of_int (col_index (store b'' c)))) (elems (columns b'')))))"
  using showColumns_frame [of b a1 a2 a3 a4 b']
    showColumns_frame [of b "argAt (args @ [ANum (- 1)]) 0" "argAt (args @ [ANum (- 1)]) 1"
      "argAt (args @ [ANum (- 1)]) 2" "argAt (args @ [ANum (- 1)]) 3" b'']
  unfolding hideColumns_def showColumnsApply_def by blast

theorem showColumns_writes_only_active_columns_witness:
  "\<exists>b' b''. showColumns exampleBehavior (ABool False) (AList [2]) (ANum 0) AUndefined = Inr b' \<and>
      hideColumns exampleBehavior [ABool False, ANum 0] = Inr b'' \<and>
      (sameButActiveColumns exampleBehavior b' \<and>
       calls (grid b') = calls (grid exampleBehavior) \<and>
       store b' = store exampleBehavior \<and>
       allColumns b' = allColumns exampleBehavior \<and>
       dataModels b' = dataModels exampleBehavior \<and>
       properties (grid b') ''columnIndexes'' =
         Some (JArr (map (\<lambda>c. JNum (of_int (col_index (store b' c)))) (elems (columns b'))))) \<and>
      (sameButActiveColumns exampleBehavior b'' \<and>
       calls (grid b'') = calls (grid exampleBehavior) \<and>
       store b'' = store exampleBehavior \<and>
       allColumns b'' = allColumns exampleBehavior \<and>
       dataModels b'' = dataModels exampleBehavior \<and>
       properties (grid b'') ''columnIndexes'' =
         Some (JArr (map (\<lambda>c. JNum (of_int (col_index (store b'' c)))) (elems (columns b'')))))"
proof -
  obtain b' where 1: "showColumns exampleBehavior (ABool False) (AList [2]) (ANum 0) AUndefined = Inr b'"
    by (simp add: showColumns_number)
  obtain b'' where 2: "hideColumns exampleBehavior [ABool False, ANum 0] = Inr b''"
    by (simp add: hideColumns_two showColumns_scalar showColumns_number)
  from showColumns_writes_only_active_columns
    [of exampleBehavior "ABool False" "AList [2]" "ANum 0" AUndefined b' "[ABool False, ANum 0]" b'']
    1 2
  show ?thesis by blast
qed

subsection \<open>Resetting the columns\<close>

lemma clearColumns_result:
  "clearColumns b =
     (let sch = orDefault (orDefault (schema b) treeColumnIndex defaultTreeSchema)
                  rowColumnIndex defaultRowSchema;
          t = nextOid b;
          r = Suc (nextOid b);
          layers = assignProperty ''propClassLayers'' (JArr [propClassCOLUMNS b]) (JObj [])
      in b\<lparr>store := (store b)
             (t := \<lparr>col_index = treeColumnIndex, col_header = headerAt sch treeColumnIndex,
                    col_properties = layers\<rparr>,
              r := \<lparr>col_index = rowColumnIndex, col_header = headerAt sch rowColumnIndex,
                    col_properties = layers\<rparr>),
           nextOid := Suc (Suc (nextOid b)),
           columns := \<lparr>elems = [], negs = [treeColumnIndex \<mapsto> t, rowColumnIndex \<mapsto> r]\<rparr>,
           allColumns := \<lparr>elems = [], negs = [treeColumnIndex \<mapsto> t, rowColumnIndex \<mapsto> r]\<rparr>,
           schema := sch,
           grid := (grid b)\<lparr>calls := calls (grid b) @ [ResetRowHeaderColumnWidth]\<rparr>\<rparr>)"
  by (simp add: clearColumns_def Let_def newColumn_def putNeg_def emptyArray_def arrayGet_def
      treeColumnIndex_def rowColumnIndex_def setPropClassLayers_def gridCalled_def fun_upd_twist)

text \<open>
  Claim C3, as amended. After \<^verbatim>\<open>clearColumns\<close> the two sentinel columns exist anew:
  \<^verbatim>\<open>getColumn(treeColumnIndex)\<close> and \<^verbatim>\<open>getColumn(rowColumnIndex)\<close> are defined, they are
  different objects with the indexes -1 and -2, and their header labels are \<^verbatim>\<open>'Tree'\<close>
  and \<^verbatim>\<open>''\<close> when the schema has no entry for them. The active list has no element:
  the two sentinels are stored in it under their negative keys only, where
  \<^verbatim>\<open>getActiveColumn\<close> finds them.
\<close>

theorem clearColumns_sentinels:
  "\<exists>t r. getColumn (clearColumns b) treeColumnIndex = Some t \<and>
         getColumn (clearColumns b) rowColumnIndex = Some r \<and>
         t \<noteq> r \<and>
         col_index (store (clearColumns b) t) = treeColumnIndex \<and>
         col_index (store (clearColumns b) r) = rowColumnIndex \<and>
         (schema b treeColumnIndex = None \<longrightarrow> col_header (store (clearColumns b) t) = Some ''Tree'') \<and>
         (schema b rowColumnIndex = None \<longrightarrow> col_header (store (clearColumns b) r) = Some []) \<and>
         getActiveColumn (clearColumns b) treeColumnIndex = Some t \<and>
         getActiveColumn (clearColumns b) rowColumnIndex = Some r \<and>
         elems (columns (clearColumns b)) = [] \<and>
         getActiveColumnCount (clearColumns b) = 0 \<and>
         dom (negs (columns (clearColumns b))) = {treeColumnIndex, rowColumnIndex}"
  by (auto simp: clearColumns_result Let_def getColumn_def getActiveColumn_def arrayGet_def
      getActiveColumnCount_def treeColumnIndex_def rowColumnIndex_def headerAt_def orDefault_def
      defaultTreeSchema_def defaultRowSchema_def split: option.splits)

theorem clearColumns_sentinels_witness:
  "\<exists>t r. getColumn (clearColumns exampleBehavior) treeColumnIndex = Some t \<and>
         getColumn (clearColumns exampleBehavior) rowColumnIndex = Some r \<and>
         t \<noteq> r \<and>
         col_index (store (clearColumns exampleBehavior) t) = treeColumnIndex \<and>
         col_index (store (clearColumns exampleBehavior) r) = rowColumnIndex \<and>
         col_header (store (clearColumns exampleBehavior) t) = Some ''Tree'' \<and>
         col_header (store (clearColumns exampleBehavior) r) = Some [] \<and>
         getActiveColumn (clearColumns exampleBehavior) treeColumnIndex = Some t \<and>
         getActiveColumn (clearColumns exampleBehavior) rowColumnIndex = Some r \<and>
         elems (columns (clearColumns exampleBehavior)) = [] \<and>
         getActiveColumnCount (clearColumns exampleBehavior) = 0 \<and>
         dom (negs (columns (clearColumns exampleBehavior))) = {treeColumnIndex, rowColumnIndex}"
proof -
  have "schema exampleBehavior treeColumnIndex = None"
    and "schema exampleBehavior rowColumnIndex = None"
    by (simp_all add: exampleBehavior_def)
  with clearColumns_sentinels [of exampleBehavior] show ?thesis by simp
qed

text \<open>
  Claim C3, as stated, fails: after \<^verbatim>\<open>clearColumns\<close> the active list does not contain
  the two sentinel columns as elements. Its length is 0 and neither sentinel has an
  active position.
\<close>

theorem clearColumns_active_list_empty:
  "elems (columns (clearColumns exampleBehavior)) = [] \<and>
   getActiveColumnCount (clearColumns exampleBehavior) = 0 \<and>
   getActiveColumnIndex (clearColumns exampleBehavior) (IndexArg treeColumnIndex) = None \<and>
   getActiveColumnIndex (clearColumns exampleBehavior) (IndexArg rowColumnIndex) = None"
  by (simp add: clearColumns_result Let_def getActiveColumnCount_def)

subsection \<open>Row properties and row heights\<close>

lemma putDataModel_same [simp]: "putDataModel b d (dataModels b d) = b"
  by (simp add: putDataModel_def)

lemma subgridOf_putDataModel [simp]: "subgridOf (putDataModel b d dm) sub = subgridOf b sub"
  by (simp add: subgridOf_def putDataModel_def split: option.splits)

lemma dataModels_putDataModel [simp]: "dataModels (putDataModel b d dm) d = dm"
  by (simp add: putDataModel_def)

lemma andNull_undefined [simp]: "andNull p = PUndefined \<longleftrightarrow> p = PUndefined"
  by (cases p) simp_all


lemma getRowProperties_existing:
  "rows (dataModels b (subgridOf b sub)) y = Some (Some m) \<Longrightarrow> rowProperties m = Some p \<Longrightarrow>
   getRowProperties b y prototype sub = (RObject p, b)"
  by (simp add: getRowProperties_def getRowMetadata_def)


lemma calls_putDataModel [simp]: "calls (grid (putDataModel b d dm)) = calls (grid b)"
  by (simp add: putDataModel_def)

lemma rows_putRowProps [simp]:
  "rows (putRowProps dm y m p) y = Some (Some (m\<lparr>rowProperties := Some p\<rparr>))"
  by (simp add: putRowProps_def)

lemma getRowProperties_create_metadata:
  assumes "prototype \<noteq> PUndefined"
    and "rows (dataModels b (subgridOf b sub)) y = Some None"
  shows "getRowProperties b y prototype sub =
           (RObject (objectCreate prototype),
            putDataModel b (subgridOf b sub)
              (putRowProps
                 ((dataModels b (subgridOf b sub))
                    \<lparr>rows := (rows (dataModels b (subgridOf b sub)))(y \<mapsto> Some emptyMetadata)\<rparr>)
                 y emptyMetadata (objectCreate prototype)))"
  using assms by (simp add: getRowProperties_def getRowMetadata_def Let_def emptyMetadata_def)

lemma getRowProperties_create_props:
  assumes "prototype \<noteq> PUndefined"
    and "rows (dataModels b (subgridOf b sub)) y = Some (Some m)"
    and "rowProperties m = None"
  shows "getRowProperties b y prototype sub =
           (RObject (objectCreate prototype),
            putDataModel b (subgridOf b sub)
              (putRowProps (dataModels b (subgridOf b sub)) y m (objectCreate prototype)))"
  using assms by (simp add: getRowProperties_def getRowMetadata_def Let_def)

lemma getRowProperties_created:
  assumes "prototype \<noteq> PUndefined"
    and "rows (dataModels b (subgridOf b sub)) y = Some None \<or>
         (\<exists>m. rows (dataModels b (subgridOf b sub)) y = Some (Some m) \<and> rowProperties m = None)"
  shows "\<exists>b' m'. getRowProperties b y prototype sub = (RObject (objectCreate prototype), b') \<and>
           rows (dataModels b' (subgridOf b' sub)) y = Some (Some m') \<and>
           rowProperties m' = Some (objectCreate prototype) \<and>
           calls (grid b') = calls (grid b)"
  using assms(2)
proof
  assume "rows (dataModels b (subgridOf b sub)) y = Some None"
  from getRowProperties_create_metadata [OF assms(1) this] show ?thesis by simp
next
  assume "\<exists>m. rows (dataModels b (subgridOf b sub)) y = Some (Some m) \<and> rowProperties m = None"
  then obtain m where "rows (dataModels b (subgridOf b sub)) y = Some (Some m)"
    and "rowProperties m = None" by blast
  from getRowProperties_create_props [OF assms(1) this] show ?thesis by simp
qed


lemma example_rows:
  "subgridOf exampleBehavior None = 0"
  "rows (dataModels exampleBehavior 0) 5 = None"
  "rows (dataModels exampleBehavior 0) 0 = Some None"
  "rows (dataModels exampleBehavior 0) 1 =
     Some (Some \<lparr>rowProperties = Some \<lparr>own = [''height'' \<mapsto> JNum 20], inherited = Map.empty\<rparr>,
                 otherKeys = Map.empty\<rparr>)"
  by (simp_all add: exampleBehavior_def subgridOf_def)


lemma getRowProperties_for_write:
  assumes "rows (dataModels b (subgridOf b sub)) y \<noteq> None"
  shows "\<exists>b1 m1 p. getRowProperties b y PNull sub = (RObject p, b1) \<and>
           rows (dataModels b1 (subgridOf b sub)) y = Some (Some m1) \<and>
           rowProperties m1 = Some p \<and>
           calls (grid b1) = calls (grid b) \<and>
           readProp p ''height'' = storedHeight b y sub"
proof -
  from assms consider
      (nometa) "rows (dataModels b (subgridOf b sub)) y = Some None"
    | (noprops) m where "rows (dataModels b (subgridOf b sub)) y = Some (Some m)"
        "rowProperties m = None"
    | (props) m p where "rows (dataModels b (subgridOf b sub)) y = Some (Some m)"
        "rowProperties m = Some p"
    by (cases "rows (dataModels b (subgridOf b sub)) y") auto
  then show ?thesis
  proof cases
    case nometa
    from getRowProperties_create_metadata [OF _ this, of PNull] nometa show ?thesis
      by (simp add: storedHeight_def readProp_def)
  next
    case noprops
    from getRowProperties_create_props [OF _ this, of PNull] noprops show ?thesis
      by (simp add: storedHeight_def readProp_def)
  next
    case props
    from getRowProperties_existing [OF this, of PNull] props show ?thesis
      by (simp add: storedHeight_def)
  qed
qed

lemma setRowHeight_unfold:
  assumes "getRowProperties b y PNull sub = (RObject p, b1)"
    and "rows (dataModels b1 (subgridOf b sub)) y = Some (Some m1)"
  shows "setRowHeight b y h sub =
     Inr ((if Some (JNum (clampHeight h)) \<noteq> readProp p ''height'' then stateChanged else id)
           (putDataModel b1 (subgridOf b sub)
              (putRowProps (dataModels b1 (subgridOf b sub)) y m1
                 (p\<lparr>own := (own p)(''height'' \<mapsto> JNum (clampHeight h))\<rparr>))))"
  using assms by (simp add: setRowHeight_def Let_def)

lemma setRowHeight_same:
  assumes "rows (dataModels b (subgridOf b sub)) y = Some (Some m)"
    and "rowProperties m = Some p"
    and "own p ''height'' = Some (JNum (clampHeight h))"
  shows "setRowHeight b y h sub = Inr b"
proof -
  have g: "getRowProperties b y PNull sub = (RObject p, b)"
    using assms(1,2) by (rule getRowProperties_existing)
  have "(own p)(''height'' \<mapsto> JNum (clampHeight h)) = own p"
    using assms(3) by (rule map_upd_triv)
  then have "p\<lparr>own := (own p)(''height'' \<mapsto> JNum (clampHeight h))\<rparr> = p" by simp
  then have "putRowProps (dataModels b (subgridOf b sub)) y m
        (p\<lparr>own := (own p)(''height'' \<mapsto> JNum (clampHeight h))\<rparr>) = dataModels b (subgridOf b sub)"
    using assms(1,2) by (simp add: putRowProps_def map_upd_triv)
  with setRowHeight_unfold [OF g assms(1), of h] assms(3) show ?thesis
    by (simp add: readProp_def)
qed

lemma stateChanged_others [simp]:
  "dataModels (stateChanged b) = dataModels b"
  "subgridOf (stateChanged b) sub = subgridOf b sub"
  "calls (grid (stateChanged b)) = calls (grid b) @ [BehaviorStateChanged]"
  by (simp_all add: stateChanged_def gridCalled_def subgridOf_def split: option.splits)

text \<open>
  Claim C7. For a row of the subgrid, \<^verbatim>\<open>setRowHeight(row, height)\<close> stores
  \<open>max 5 \<lceil>height\<rceil>\<close> as the height of the row's properties object. It calls
  \<^verbatim>\<open>stateChanged\<close> once when that value differs from the height the row held before (or
  the row held none) and not at all when it is the same; repeating the call changes
  nothing and notifies nobody.
\<close>

theorem setRowHeight_clamps:
  fixes b :: behavior and sub :: "nat option"
  assumes "rows (dataModels b (subgridOf b sub)) y \<noteq> None"
  shows "\<exists>b' p. setRowHeight b y h sub = Inr b' \<and>
           getRowProperties b' y PUndefined sub = (RObject p, b') \<and>
           own p ''height'' = Some (JNum (max 5 (of_int \<lceil>h\<rceil>))) \<and>
           calls (grid b') =
             calls (grid b) @
             (if storedHeight b y sub = Some (JNum (max 5 (of_int \<lceil>h\<rceil>))) then []
              else [BehaviorStateChanged]) \<and>
           setRowHeight b' y h sub = Inr b'"
proof -
  from getRowProperties_for_write [OF assms] obtain b1 m1 p where
      g: "getRowProperties b y PNull sub = (RObject p, b1)"
      and r: "rows (dataModels b1 (subgridOf b sub)) y = Some (Some m1)"
      and c: "calls (grid b1) = calls (grid b)"
      and h: "readProp p ''height'' = storedHeight b y sub"
    by blast
  define p' where "p' = p\<lparr>own := (own p)(''height'' \<mapsto> JNum (clampHeight h))\<rparr>"
  define b2 where "b2 = putDataModel b1 (subgridOf b sub)
     (putRowProps (dataModels b1 (subgridOf b sub)) y m1 p')"
  define b' where "b' =
     (if Some (JNum (clampHeight h)) \<noteq> readProp p ''height'' then stateChanged else id) b2"
  have sub1: "subgridOf b1 sub = subgridOf b sub"
    using g by (auto simp: getRowProperties_def Let_def split: prod.splits metadataResult.splits
        option.splits if_splits)
  have 1: "setRowHeight b y h sub = Inr b'"
    using setRowHeight_unfold [OF g r, of h] by (simp add: b'_def b2_def p'_def)
  have sub': "subgridOf b' sub = subgridOf b sub"
    by (simp add: b'_def b2_def sub1 [symmetric])
  have rows': "rows (dataModels b' (subgridOf b' sub)) y = Some (Some (m1\<lparr>rowProperties := Some p'\<rparr>))"
    unfolding sub' by (simp add: b'_def b2_def)
  have 2: "getRowProperties b' y PUndefined sub = (RObject p', b')"
    using rows' by (rule getRowProperties_existing) simp
  have 3: "own p' ''height'' = Some (JNum (clampHeight h))"
    by (simp add: p'_def)
  have 4: "calls (grid b') = calls (grid b) @
             (if storedHeight b y sub = Some (JNum (clampHeight h)) then []
              else [BehaviorStateChanged])"
    using c h by (auto simp: b'_def b2_def)
  have 5: "setRowHeight b' y h sub = Inr b'"
    using rows' _ 3 by (rule setRowHeight_same) simp
  from 1 2 3 4 5 show ?thesis
    unfolding clampHeight_def by blast
qed

text \<open>
  The heights 2 and 5.2 on the small grid: 5 and 6 are stored, each with one
  notification, and the second call of each returns the state unchanged.
\<close>

theorem setRowHeight_clamps_witness:
  "(\<exists>b' p. setRowHeight exampleBehavior 0 2 None = Inr b' \<and>
       getRowProperties b' 0 PUndefined None = (RObject p, b') \<and>
       own p ''height'' = Some (JNum 5) \<and>
       calls (grid b') = [BehaviorStateChanged] \<and>
       setRowHeight b' 0 2 None = Inr b')
   \<and> (\<exists>b' p. setRowHeight exampleBehavior 1 (26 / 5) None = Inr b' \<and>
       getRowProperties b' 1 PUndefined None = (RObject p, b') \<and>
       own p ''height'' = Some (JNum 6) \<and>
       calls (grid b') = [BehaviorStateChanged] \<and>
       setRowHeight b' 1 (26 / 5) None = Inr b')"
proof -
  have c: "calls (grid exampleBehavior) = []" by (simp add: exampleBehavior_def)
  have ceil: "\<lceil>26 / 5 :: rat\<rceil> = 6" by (rule ceiling_unique) simp_all
  have s0: "storedHeight exampleBehavior 0 None = None"
    and s1: "storedHeight exampleBehavior 1 None = Some (JNum 20)"
    by (simp_all add: storedHeight_def example_rows readProp_def)
  have "rows (dataModels exampleBehavior (subgridOf exampleBehavior None)) 0 \<noteq> None"
    by (simp add: example_rows)
  from setRowHeight_clamps [OF this, of 2] have A: "\<exists>b' p. setRowHeight exampleBehavior 0 2 None = Inr b' \<and>
       getRowProperties b' 0 PUndefined None = (RObject p, b') \<and>
       own p ''height'' = Some (JNum 5) \<and>
       calls (grid b') = [BehaviorStateChanged] \<and>
       setRowHeight b' 0 2 None = Inr b'"
    by (simp add: c s0)
  have "rows (dataModels exampleBehavior (subgridOf exampleBehavior None)) 1 \<noteq> None"
    by (simp add: example_rows)
  from setRowHeight_clamps [OF this, of "26 / 5"] have B: "\<exists>b' p. setRowHeight exampleBehavior 1 (26 / 5) None = Inr b' \<and>
       getRowProperties b' 1 PUndefined None = (RObject p, b') \<and>
       own p ''height'' = Some (JNum 6) \<and>
       calls (grid b') = [BehaviorStateChanged] \<and>
       setRowHeight b' 1 (26 / 5) None = Inr b'"
    by (simp add: c s1 ceil)
  from A B show ?thesis by blast
qed

subsection \<open>Dispatching events\<close>

lemma delegate_empty: "featureChain b = None \<Longrightarrow> delegate b handle g event = Inr g"
  by (simp add: delegate_def)

lemma delegate_chain:
  "featureChain b = Some chain \<Longrightarrow>
   delegate b handle g event =
     (case handle chain g event of
        Inl e \<Rightarrow> Inl e
      | Inr g' \<Rightarrow> featureSetCursor chain (updateCursor g'))"
  by (simp add: delegate_def setCursor_def split: sum.splits)

lemmas entry_points =
  onMouseMove_def onClick_def onContextMenu_def onWheelMoved_def onMouseUp_def onMouseDrag_def
  onKeyDown_def onKeyUp_def onDoubleClick_def behaviorHandleMouseDown_def
  behaviorHandleMouseExit_def

text \<open>
  Claim C9. Without a feature chain each of the eleven entry points returns normally
  with the grid it was given: nothing is forwarded, nothing is changed, the cursor is
  not touched. With a chain, the entry point forwards the grid and the event to the
  chain's handler of that kind and, when the handler returns, updates the cursor and
  asks the chain to set it.
\<close>

theorem dispatch_through_chain:
  "(featureChain b = None \<longrightarrow>
      onMouseMove b g event = Inr g \<and>
      onClick b g event = Inr g \<and>
      onContextMenu b g event = Inr g \<and>
      onWheelMoved b g event = Inr g \<and>
      onMouseUp b g event = Inr g \<and>
      onMouseDrag b g event = Inr g \<and>
      onKeyDown b g event = Inr g \<and>
      onKeyUp b g event = Inr g \<and>
      onDoubleClick b g event = Inr g \<and>
      behaviorHandleMouseDown b g event = Inr g \<and>
      behaviorHandleMouseExit b g event = Inr g)
   \<and> (\<forall>chain. featureChain b = Some chain \<longrightarrow>
      onMouseMove b g event =
        (case handleMouseMove chain g event of
           Inl e \<Rightarrow> Inl e | Inr g' \<Rightarrow> featureSetCursor chain (updateCursor g')) \<and>
      onClick b g event =
        (case handleClick chain g event of
           Inl e \<Rightarrow> Inl e | Inr g' \<Rightarrow> featureSetCursor chain (updateCursor g')) \<and>
      onContextMenu b g event =
        (case handleContextMenu chain g event of
           Inl e \<Rightarrow> Inl e | Inr g' \<Rightarrow> featureSetCursor chain (updateCursor g')) \<and>
      onWheelMoved b g event =
        (case handleWheelMoved chain g event of
           Inl e \<Rightarrow> Inl e | Inr g' \<Rightarrow> featureSetCursor chain (updateCursor g')) \<and>
      onMouseUp b g event =
        (case handleMouseUp chain g event of
           Inl e \<Rightarrow> Inl e | Inr g' \<Rightarrow> featureSetCursor chain (updateCursor g')) \<and>
      onMouseDrag b g event =
        (case handleMouseDrag chain g event of
           Inl e \<Rightarrow> Inl e | Inr g' \<Rightarrow> featureSetCursor chain (updateCursor g')) \<and>
      onKeyDown b g event =
        (case handleKeyDown chain g event of
           Inl e \<Rightarrow> Inl e | Inr g' \<Rightarrow> featureSetCursor chain (updateCursor g')) \<and>
      onKeyUp b g event =
        (case handleKeyUp chain g event of
           Inl e \<Rightarrow> Inl e | Inr g' \<Rightarrow> featureSetCursor chain (updateCursor g')) \<and>
      onDoubleClick b g event =
        (case handleDoubleClick chain g event of
           Inl e \<Rightarrow> Inl e | Inr g' \<Rightarrow> featureSetCursor chain (updateCursor g')) \<and>
      behaviorHandleMouseDown b g event =
        (case handleMouseDown chain g event of
           Inl e \<Rightarrow> Inl e | Inr g' \<Rightarrow> featureSetCursor chain (updateCursor g')) \<and>
      behaviorHandleMouseExit b g event =
        (case handleMouseExit chain g event of
           Inl e \<Rightarrow> Inl e | Inr g' \<Rightarrow> featureSetCursor chain (updateCursor g')))"
  by (simp add: entry_points delegate_empty delegate_chain)

theorem dispatch_through_chain_witness:
  "(onMouseMove exampleBehavior (grid exampleBehavior) JNull = Inr (grid exampleBehavior) \<and>
    onClick exampleBehavior (grid exampleBehavior) JNull = Inr (grid exampleBehavior) \<and>
    onContextMenu exampleBehavior (grid exampleBehavior) JNull = Inr (grid exampleBehavior) \<and>
    onWheelMoved exampleBehavior (grid exampleBehavior) JNull = Inr (grid exampleBehavior) \<and>
    onMouseUp exampleBehavior (grid exampleBehavior) JNull = Inr (grid exampleBehavior) \<and>
    onMouseDrag exampleBehavior (grid exampleBehavior) JNull = Inr (grid exampleBehavior) \<and>
    onKeyDown exampleBehavior (grid exampleBehavior) JNull = Inr (grid exampleBehavior) \<and>
    onKeyUp exampleBehavior (grid exampleBehavior) JNull = Inr (grid exampleBehavior) \<and>
    onDoubleClick exampleBehavior (grid exampleBehavior) JNull = Inr (grid exampleBehavior) \<and>
    behaviorHandleMouseDown exampleBehavior (grid exampleBehavior) JNull = Inr (grid exampleBehavior) \<and>
    behaviorHandleMouseExit exampleBehavior (grid exampleBehavior) JNull = Inr (grid exampleBehavior))
   \<and> behaviorHandleMouseDown (exampleBehavior\<lparr>featureChain := Some exampleFeature\<rparr>)
         (grid exampleBehavior) (JBool True) =
       Inr \<lparr>properties = [''mouseDown'' \<mapsto> JBool True, ''cursor'' \<mapsto> JStr ''pointer''],
            calls = [UpdateCursor]\<rparr>
   \<and> onKeyUp (exampleBehavior\<lparr>featureChain := Some exampleFeature\<rparr>)
         (grid exampleBehavior) JNull =
       Inr \<lparr>properties = [''cursor'' \<mapsto> JStr ''pointer''], calls = [UpdateCursor]\<rparr>"
proof -
  have n: "featureChain exampleBehavior = None"
    and g: "grid exampleBehavior = \<lparr>properties = Map.empty, calls = []\<rparr>"
    by (simp_all add: exampleBehavior_def)
  have s: "featureChain (exampleBehavior\<lparr>featureChain := Some exampleFeature\<rparr>) = Some exampleFeature"
    by simp
  from dispatch_through_chain [of exampleBehavior "grid exampleBehavior" JNull] n
  have 1: "onMouseMove exampleBehavior (grid exampleBehavior) JNull = Inr (grid exampleBehavior) \<and>
    onClick exampleBehavior (grid exampleBehavior) JNull = Inr (grid exampleBehavior) \<and>
    onContextMenu exampleBehavior (grid exampleBehavior) JNull = Inr (grid exampleBehavior) \<and>
    onWheelMoved exampleBehavior (grid exampleBehavior) JNull = Inr (grid exampleBehavior) \<and>
    onMouseUp exampleBehavior (grid exampleBehavior) JNull = Inr (grid exampleBehavior) \<and>
    onMouseDrag exampleBehavior (grid exampleBehavior) JNull = Inr (grid exampleBehavior) \<and>
    onKeyDown exampleBehavior (grid exampleBehavior) JNull = Inr (grid exampleBehavior) \<and>
    onKeyUp exampleBehavior (grid exampleBehavior) JNull = Inr (grid exampleBehavior) \<and>
    onDoubleClick exampleBehavior (grid exampleBehavior) JNull = Inr (grid exampleBehavior) \<and>
    behaviorHandleMouseDown exampleBehavior (grid exampleBehavior) JNull = Inr (grid exampleBehavior) \<and>
    behaviorHandleMouseExit exampleBehavior (grid exampleBehavior) JNull = Inr (grid exampleBehavior)"
    by blast
  from dispatch_through_chain [of "exampleBehavior\<lparr>featureChain := Some exampleFeature\<rparr>"
      "grid exampleBehavior" "JBool True"] s
  have 2: "behaviorHandleMouseDown (exampleBehavior\<lparr>featureChain := Some exampleFeature\<rparr>)
         (grid exampleBehavior) (JBool True) =
       Inr \<lparr>properties = [''mouseDown'' \<mapsto> JBool True, ''cursor'' \<mapsto> JStr ''pointer''],
            calls = [UpdateCursor]\<rparr>"
    by (simp add: g exampleFeature_def updateCursor_def)
  from dispatch_through_chain [of "exampleBehavior\<lparr>featureChain := Some exampleFeature\<rparr>"
      "grid exampleBehavior" JNull] s
  have 3: "onKeyUp (exampleBehavior\<lparr>featureChain := Some exampleFeature\<rparr>)
         (grid exampleBehavior) JNull =
       Inr \<lparr>properties = [''cursor'' \<mapsto> JStr ''pointer''], calls = [UpdateCursor]\<rparr>"
    by (simp add: g exampleFeature_def updateCursor_def)
  from 1 2 3 show ?thesis by blast
qed

subsection \<open>The snapshot and its round trip\<close>

lemma decimal_nonempty: "decimal n \<noteq> []"
  by (subst decimal.simps) simp

lemma hd_decimal: "hd (decimal n) \<in> set ''0123456789''"
proof (induction n rule: decimal.induct)
  case (1 n)
  show ?case
  proof (cases "n < 10")
    case True
    then have "digitChar n \<in> set ''0123456789''"
      unfolding digitChar_def by (intro nth_mem) simp
    with True show ?thesis by (subst decimal.simps) simp
  next
    case False
    with 1 decimal_nonempty [of "n div 10"] show ?thesis
      by (subst decimal.simps) simp
  qed
qed

lemma decimal_not_noExport: "decimal i \<notin> set noExportProperties"
proof
  assume "decimal i \<in> set noExportProperties"
  then have "hd (decimal i) \<in> {CHR ''c'', CHR ''f'', CHR ''r'', CHR ''t''}"
    by (auto simp: noExportProperties_def)
  with hd_decimal [of i] show False by auto
qed

lemma deletes_False_decimal [simp]: "\<not> deletes (Some False) (decimal i)"
  by (simp add: deletes_def decimal_not_noExport)

lemma deletes_False: "deletes (Some False) k \<longleftrightarrow> k \<in> set noExportProperties"
  by (simp add: deletes_def)

lemma array_keeps_elements:
  "map (\<lambda>(i, x). if deletes (Some False) (decimal i) then JUndefined else x) (enumerate n xs) = xs"
  by (induction xs arbitrary: n) simp_all

lemma clearObjectProperties_False:
  "clearObjectProperties v (Some False) = Inr (withoutNoExportKeys v)"
proof (cases v)
  case (JArr xs)
  then show ?thesis by (simp only: clearObjectProperties.simps array_keeps_elements
        withoutNoExportKeys.simps)
next
  case (JStr s)
  then show ?thesis by (simp add: list_ex_iff)
next
  case (JObj kvs)
  then show ?thesis by (simp add: deletes_False)
qed simp_all

lemma getState_eq:
  "getState b =
     Inr (case copyBag (properties (grid b)) ''columnProperties'' of
            None \<Rightarrow> copyBag (properties (grid b))
          | Some cp \<Rightarrow> (copyBag (properties (grid b)))(''columnProperties'' \<mapsto> withoutNoExportKeys cp))"
  by (simp add: getState_def Let_def clearObjectProperties_False split: option.splits)

text \<open>
  Claim C4 does not hold of \<^verbatim>\<open>getState\<close>. The loop of \<^verbatim>\<open>clearObjectProperties\<close> runs
  over the keys of \<^verbatim>\<open>copy.columnProperties\<close> itself. When that is the array of the
  per-column properties objects, as \<^verbatim>\<open>setAllColumnProperties\<close> takes it, the keys are
  the indexes, none of which is on the list, so nothing is deleted: the key
  \<^verbatim>\<open>columnHeader\<close> of the column's properties object is still in the snapshot.
\<close>

theorem getState_keeps_listed_key_in_column:
  "getState exampleSnapshotBehavior =
     Inr [''columnProperties'' \<mapsto>
            JArr [JObj [(''columnHeader'', JObj [(''color'', JStr ''red'')]),
                        (''width'', JNum 80)]]]"
  by (auto simp: getState_eq exampleSnapshotBehavior_def copyBag_def)

lemma jsonCopy_undefined [simp]: "jsonCopy v = JUndefined \<longleftrightarrow> v = JUndefined"
  by (cases v) simp_all




lemma withoutNoExportKeys_undefined [simp]:
  "withoutNoExportKeys v = JUndefined \<longleftrightarrow> v = JUndefined"
  by (cases v) simp_all



lemma properties_clearColumns [simp]:
  "properties (grid (clearColumns b)) = properties (grid b)"
  by (simp add: clearColumns_result Let_def)






















end
